theory Spec2Isabelle
  imports Complex_Main
begin

section \<open>Errors\<close>

text \<open>
  The Python exceptions the modelled code can raise.  A function that may raise returns
  \<open>py_error + 'a\<close>, with \<open>Inl\<close> carrying the exception.
\<close>

datatype py_error =
    ValueError | KeyError | IndexError | AttributeError | TypeError | UnboundLocalError
  | OverflowError

definition bind_err :: "'e + 'a \<Rightarrow> ('a \<Rightarrow> 'e + 'b) \<Rightarrow> 'e + 'b" where
  "bind_err m f = (case m of Inl e \<Rightarrow> Inl e | Inr x \<Rightarrow> f x)"

section \<open>Symbolic expressions\<close>

text \<open>
  The sympy expressions the rate-law generator builds.  \<open>Symbol name nonneg\<close> is
  \<^verbatim>\<open>sp.Symbol(name, nonnegative=nonneg)\<close> (\<^verbatim>\<open>sp.var(name)\<close> carries no assumption),
  \<open>MetabFun m\<close> is the time-dependent concentration
  \<^verbatim>\<open>sp.Symbol(m, nonnegative=True)(t)\<close>, \<open>Num\<close> is a number (\<^verbatim>\<open>sp.S.One\<close> is
  \<open>Num 1\<close>).  sympy normalises what \<^verbatim>\<open>sp.Add\<close>, \<^verbatim>\<open>sp.Mul\<close> and \<^verbatim>\<open>sp.Pow\<close>
  build; the model keeps the tree as built, and two expressions are compared by their
  value \<open>eval_expr\<close> under every assignment of the symbols.
\<close>

type_synonym symbol = "string \<times> bool"

datatype expr =
    Num real
  | Symbol string bool
  | MetabFun string
  | Add expr expr
  | Mul expr expr
  | Pow expr int

record assignment =
  sym_val :: "symbol \<Rightarrow> real"
  conc_val :: "string \<Rightarrow> real"

fun eval_expr :: "assignment \<Rightarrow> expr \<Rightarrow> real" where
  "eval_expr \<rho> (Num c) = c"
| "eval_expr \<rho> (Symbol s nn) = sym_val \<rho> (s, nn)"
| "eval_expr \<rho> (MetabFun m) = conc_val \<rho> m"
| "eval_expr \<rho> (Add a b) = eval_expr \<rho> a + eval_expr \<rho> b"
| "eval_expr \<rho> (Mul a b) = eval_expr \<rho> a * eval_expr \<rho> b"
| "eval_expr \<rho> (Pow a n) = eval_expr \<rho> a powi n"

text \<open>
  \<^verbatim>\<open>expression.atoms(sp.Symbol)\<close>: the symbols at the leaves.  The only argument of a
  concentration function is the time symbol \<^verbatim>\<open>t\<close>.
\<close>

fun atoms_Symbol :: "expr \<Rightarrow> symbol list" where
  "atoms_Symbol (Num c) = []"
| "atoms_Symbol (Symbol s nn) = [(s, nn)]"
| "atoms_Symbol (MetabFun m) = [(''t'', False)]"
| "atoms_Symbol (Add a b) = remdups (atoms_Symbol a @ atoms_Symbol b)"
| "atoms_Symbol (Mul a b) = remdups (atoms_Symbol a @ atoms_Symbol b)"
| "atoms_Symbol (Pow a n) = atoms_Symbol a"

definition str_sym :: "symbol \<Rightarrow> string" where
  "str_sym s = fst s"

section \<open>Reactions, metabolites and the model\<close>

text \<open>
  A reaction carries its ordered coefficient dictionary \<^verbatim>\<open>_metabolites\<close>, keyed by
  metabolite (here by the metabolite's identifier, the key of the registry).  The
  attributes \<^verbatim>\<open>exchange\<close>, \<^verbatim>\<open>get_external_metabolite\<close>, \<^verbatim>\<open>_sym_kf\<close>, \<^verbatim>\<open>_sym_kr\<close>,
  \<^verbatim>\<open>_sym_Keq\<close>, \<^verbatim>\<open>Keq\<close>, \<^verbatim>\<open>ssflux\<close> and \<^verbatim>\<open>_model\<close> are read by the code below and are fields of
  the record (\<open>in_model\<close> says that \<^verbatim>\<open>_model\<close> is not \<^verbatim>\<open>None\<close>).
\<close>

record reaction =
  rid :: string
  rmetabolites :: "(string \<times> int) list"
  reversible :: bool
  exchange :: bool
  external_metabolite :: string
  sym_kf :: string
  sym_kr :: string
  sym_Keq :: string
  Keq :: "real option"
  ssflux :: "real option"
  in_model :: bool

text \<open>
  Modelled from the spec: the method \<^verbatim>\<open>get_coefficient\<close> of a reaction (class
  MassReaction) gives the signed coefficient of a metabolite in the reaction; a
  metabolite that is no key of the dictionary does not take part and has coefficient
  \<open>0\<close>.
\<close>

definition get_coefficient :: "reaction \<Rightarrow> string \<Rightarrow> int" where
  "get_coefficient r m = (case map_of (rmetabolites r) m of None \<Rightarrow> 0 | Some c \<Rightarrow> c)"

text \<open>
  Modelled from the spec: the properties \<^verbatim>\<open>reactants\<close> and \<^verbatim>\<open>products\<close> of a reaction
  (class MassReaction): a metabolite is a reactant of a reaction iff its coefficient is
  negative, a product iff it is positive.
\<close>

definition reactants :: "reaction \<Rightarrow> string list" where
  "reactants r = map fst (filter (\<lambda>(m, c). c < 0) (rmetabolites r))"

definition products :: "reaction \<Rightarrow> string list" where
  "products r = map fst (filter (\<lambda>(m, c). 0 < c) (rmetabolites r))"

text \<open>
  A metabolite with its back-reference \<^verbatim>\<open>_reaction\<close>, the reactions it takes part in.
\<close>

record metabolite =
  mid :: string
  initial_condition :: "real option"
  m_reaction :: "reaction list"

section \<open>Matrices\<close>

text \<open>
  The numeric types of a matrix: numpy's \<^verbatim>\<open>float64\<close>, the default of the matrix
  constructors here, and \<^verbatim>\<open>int64\<close>; other numeric types are not modelled.  A
  coefficient is an integer; writing it into an array converts it to the array's type.
  An \<^verbatim>\<open>int64\<close> array raises OverflowError outside the 64-bit range; a \<^verbatim>\<open>float64\<close> array
  rounds it to the nearest number with a 53-bit significand, ties to even, and raises
  OverflowError when the result would not be finite.  \<open>float_ulp a\<close> is the spacing of
  the \<^verbatim>\<open>float64\<close> numbers at the magnitude \<open>a\<close>.
\<close>

datatype dtype = Float64 | Int64

fun float_ulp :: "nat \<Rightarrow> nat" where
  "float_ulp a = (if a < 2 ^ 53 then 1 else 2 * float_ulp (a div 2))"

definition float64_of_int :: "int \<Rightarrow> py_error + int" where
  "float64_of_int n =
     (let a = nat \<bar>n\<bar>;
          u = float_ulp a;
          q = a div u;
          r = a mod u;
          q = (if u < 2 * r \<or> (2 * r = u \<and> odd q) then q + 1 else q);
          v = q * u
      in if 2 ^ 1024 \<le> v then Inl OverflowError
         else Inr (if n < 0 then - int v else int v))"

definition dtype_convert :: "dtype \<Rightarrow> int \<Rightarrow> py_error + int" where
  "dtype_convert dt v =
     (case dt of
        Float64 \<Rightarrow> float64_of_int v
      | Int64 \<Rightarrow> (if - (2 ^ 63) \<le> v \<and> v < 2 ^ 63 then Inr v else Inl OverflowError))"

text \<open>
  The representations of the stoichiometric matrix: a dense numpy array (rows of
  entries), scipy's dictionary-of-keys and list-of-lists sparse matrices (a shape and
  the stored entries), a pandas DataFrame (row labels, column labels, entries) and a
  sympy matrix.  A matrix is its storage together with the numeric type to which a
  value is converted when it is written into the matrix; a conversion of the matrix to
  another representation keeps the entries and the numeric type.
\<close>

datatype matrix_type = Dense | Dok | Lil | Dataframe | Symbolic

datatype storage =
    NdArray "int list list"
  | DokMatrix nat nat "nat \<times> nat \<Rightarrow> int option"
  | LilMatrix nat nat "(nat \<Rightarrow> int option) list"
  | DataFrame "string list" "string list" "int list list"
  | SympyMatrix "int list list"

record matrix =
  dtype_of :: dtype
  storage_of :: storage

fun rows_shape :: "int list list \<Rightarrow> nat \<times> nat" where
  "rows_shape [] = (0, 0)"
| "rows_shape (r # rs) = (Suc (length rs), length r)"

fun storage_shape :: "storage \<Rightarrow> nat \<times> nat" where
  "storage_shape (NdArray rows) = rows_shape rows"
| "storage_shape (DokMatrix n m d) = (n, m)"
| "storage_shape (LilMatrix n m rows) = (n, m)"
| "storage_shape (DataFrame ix cols rows) = rows_shape rows"
| "storage_shape (SympyMatrix rows) = rows_shape rows"

fun storage_entry :: "storage \<Rightarrow> nat \<Rightarrow> nat \<Rightarrow> int" where
  "storage_entry (NdArray rows) i j = rows ! i ! j"
| "storage_entry (DokMatrix n m d) i j = (case d (i, j) of None \<Rightarrow> 0 | Some v \<Rightarrow> v)"
| "storage_entry (LilMatrix n m rows) i j = (case (rows ! i) j of None \<Rightarrow> 0 | Some v \<Rightarrow> v)"
| "storage_entry (DataFrame ix cols rows) i j = rows ! i ! j"
| "storage_entry (SympyMatrix rows) i j = rows ! i ! j"

definition shape :: "matrix \<Rightarrow> nat \<times> nat" where
  "shape M = storage_shape (storage_of M)"

definition entry :: "matrix \<Rightarrow> nat \<Rightarrow> nat \<Rightarrow> int" where
  "entry M i j = storage_entry (storage_of M) i j"

text \<open>
  The constructors \<^verbatim>\<open>np.zeros\<close>, \<^verbatim>\<open>dok_matrix\<close> and \<^verbatim>\<open>lil_matrix\<close>, called with a shape
  and \<^verbatim>\<open>dtype=dtype\<close>.
\<close>

definition np_zeros :: "nat \<times> nat \<Rightarrow> dtype \<Rightarrow> matrix" where
  "np_zeros s dt =
     \<lparr>dtype_of = dt, storage_of = NdArray (replicate (fst s) (replicate (snd s) 0))\<rparr>"

definition dok_zeros :: "nat \<times> nat \<Rightarrow> dtype \<Rightarrow> matrix" where
  "dok_zeros s dt = \<lparr>dtype_of = dt, storage_of = DokMatrix (fst s) (snd s) (\<lambda>k. None)\<rparr>"

definition lil_zeros :: "nat \<times> nat \<Rightarrow> dtype \<Rightarrow> matrix" where
  "lil_zeros s dt =
     \<lparr>dtype_of = dt,
      storage_of = LilMatrix (fst s) (snd s) (replicate (fst s) (\<lambda>j. None))\<rparr>"

text \<open>
  Item assignment \<^verbatim>\<open>s_matrix[i, j] = v\<close>: the value is converted to the numeric type of
  the matrix and stored; an index outside the shape raises IndexError.  The sparse
  formats do not store a zero.  The code assigns only to a matrix that one of the three
  constructors has built.
\<close>

fun store_entry :: "storage \<Rightarrow> nat \<Rightarrow> nat \<Rightarrow> int \<Rightarrow> py_error + storage" where
  "store_entry (NdArray rows) i j v =
     (if i < length rows \<and> j < length (rows ! i)
      then Inr (NdArray (rows[i := (rows ! i)[j := v]])) else Inl IndexError)"
| "store_entry (DokMatrix n m d) i j v =
     (if i < n \<and> j < m
      then Inr (DokMatrix n m (d((i, j) := (if v = 0 then None else Some v))))
      else Inl IndexError)"
| "store_entry (LilMatrix n m rows) i j v =
     (if i < n \<and> j < m \<and> i < length rows
      then Inr (LilMatrix n m (rows[i := (rows ! i)(j := (if v = 0 then None else Some v))]))
      else Inl IndexError)"
| "store_entry (DataFrame ix cols rows) i j v =
     (if i < length rows \<and> j < length (rows ! i)
      then Inr (DataFrame ix cols (rows[i := (rows ! i)[j := v]])) else Inl IndexError)"
| "store_entry (SympyMatrix rows) i j v =
     (if i < length rows \<and> j < length (rows ! i)
      then Inr (SympyMatrix (rows[i := (rows ! i)[j := v]])) else Inl IndexError)"

definition mat_set :: "matrix \<Rightarrow> nat \<Rightarrow> nat \<Rightarrow> int \<Rightarrow> py_error + matrix" where
  "mat_set M i j v =
     bind_err (dtype_convert (dtype_of M) v) (\<lambda>converted.
     bind_err (store_entry (storage_of M) i j converted) (\<lambda>stored.
     Inr (M\<lparr>storage_of := stored\<rparr>)))"

text \<open>The dense entries of a matrix, row by row (\<^verbatim>\<open>toarray\<close>, \<^verbatim>\<open>as_matrix\<close>, \<^verbatim>\<open>np.array\<close>).\<close>

definition dense_rows :: "matrix \<Rightarrow> int list list" where
  "dense_rows M =
     map (\<lambda>i. map (\<lambda>j. entry M i j) [0 ..< snd (shape M)]) [0 ..< fst (shape M)]"

text \<open>
  The conversions of \<^verbatim>\<open>_convert_S\<close>: \<^verbatim>\<open>_to_dense\<close> gives a numpy array,
  \<^verbatim>\<open>dok_matrix(...)\<close> and \<^verbatim>\<open>lil_matrix(...)\<close> build a new sparse matrix holding the
  nonzero entries.  The numeric type stays.
\<close>

definition to_dense :: "matrix \<Rightarrow> matrix" where
  "to_dense M =
     M\<lparr>storage_of := (case storage_of M of
                        NdArray rows \<Rightarrow> NdArray rows | _ \<Rightarrow> NdArray (dense_rows M))\<rparr>"

definition to_dok :: "matrix \<Rightarrow> matrix" where
  "to_dok M =
     M\<lparr>storage_of :=
         DokMatrix (fst (shape M)) (snd (shape M))
           (\<lambda>(i, j). if i < fst (shape M) \<and> j < snd (shape M) \<and> entry M i j \<noteq> 0
                     then Some (entry M i j) else None)\<rparr>"

definition to_lil :: "matrix \<Rightarrow> matrix" where
  "to_lil M =
     M\<lparr>storage_of :=
         LilMatrix (fst (shape M)) (snd (shape M))
           (map (\<lambda>i j. if j < snd (shape M) \<and> entry M i j \<noteq> 0
                        then Some (entry M i j) else None)
                [0 ..< fst (shape M)])\<rparr>"

text \<open>
  \<^verbatim>\<open>pd.DataFrame(values, index=..., columns=...)\<close> raises ValueError when the labels do
  not fit the shape of the values; \<^verbatim>\<open>sp.Matrix(values)\<close>.
\<close>

definition pd_DataFrame :: "matrix \<Rightarrow> string list \<Rightarrow> string list \<Rightarrow> py_error + matrix" where
  "pd_DataFrame M ix cols =
     (if shape M = (length ix, length cols)
      then Inr (M\<lparr>storage_of := DataFrame ix cols (dense_rows M)\<rparr>)
      else Inl ValueError)"

definition sp_Matrix :: "matrix \<Rightarrow> matrix" where
  "sp_Matrix M = M\<lparr>storage_of := SympyMatrix (dense_rows M)\<rparr>"

text \<open>
  The methods \<^verbatim>\<open>resize\<close> and \<^verbatim>\<open>update\<close> of a dictionary-of-keys matrix: resizing sets
  the shape and drops the entries outside it, updating writes the entries of a
  dictionary (a list of items, a later item overriding an earlier one) as they are.
\<close>

fun storage_resize :: "storage \<Rightarrow> nat \<times> nat \<Rightarrow> storage" where
  "storage_resize (DokMatrix n m d) s =
     DokMatrix (fst s) (snd s) (\<lambda>(i, j). if i < fst s \<and> j < snd s then d (i, j) else None)"
| "storage_resize M s = M"

fun storage_update :: "storage \<Rightarrow> ((nat \<times> nat) \<times> int) list \<Rightarrow> storage" where
  "storage_update (DokMatrix n m d) items =
     DokMatrix n m (fold (\<lambda>(k, v) d'. d'(k \<mapsto> v)) items d)"
| "storage_update M items = M"

definition dok_resize :: "matrix \<Rightarrow> nat \<times> nat \<Rightarrow> matrix" where
  "dok_resize M s = M\<lparr>storage_of := storage_resize (storage_of M) s\<rparr>"

definition dok_update :: "matrix \<Rightarrow> ((nat \<times> nat) \<times> int) list \<Rightarrow> matrix" where
  "dok_update M items = M\<lparr>storage_of := storage_update (storage_of M) items\<rparr>"

section \<open>The model and its stoichiometric matrix\<close>

text \<open>
  The registries \<^verbatim>\<open>reactions\<close> and \<^verbatim>\<open>metabolites\<close> are cobra DictLists: ordered lists
  with a lookup by identifier.  A dictionary keyed by reaction objects or by
  metabolite objects is keyed by the object's identifier; a dictionary that the code
  iterates over is the list of its items, each key once.  The keys of
  \<^verbatim>\<open>fixed_concentrations\<close> are metabolite objects or strings (the external
  metabolites of exchanges); an object and a string are different keys.  \<open>S_cache\<close> is
  the attribute \<^verbatim>\<open>_S\<close>, \<open>matrix_type_attr\<close> is \<^verbatim>\<open>_matrix_type\<close>, \<open>dtype_attr\<close> is
  \<^verbatim>\<open>_dtype\<close>, \<open>rtype\<close> is \<^verbatim>\<open>_rtype\<close>.
\<close>

datatype fixed_key = MetabKey string | StrKey string

record massmodel =
  reactions :: "reaction list"
  metabolites :: "metabolite list"
  initial_conditions :: "string \<Rightarrow> real option"
  rtype :: nat
  custom_rates :: "(string \<times> expr) list"
  custom_parameters :: "(string \<times> real) list"
  fixed_concentrations :: "fixed_key \<Rightarrow> real option"
  S_cache :: "matrix option"
  matrix_type_attr :: "matrix_type option"
  dtype_attr :: "dtype option"

text \<open>\<^verbatim>\<open>DictList.index\<close>: the position of an identifier, ValueError when it is absent.\<close>

fun dictlist_index :: "string list \<Rightarrow> string \<Rightarrow> py_error + nat" where
  "dictlist_index [] k = Inl ValueError"
| "dictlist_index (x # xs) k =
     (if x = k then Inr 0
      else (case dictlist_index xs k of Inl e \<Rightarrow> Inl e | Inr i \<Rightarrow> Inr (Suc i)))"

definition m_ind :: "massmodel \<Rightarrow> string \<Rightarrow> py_error + nat" where
  "m_ind model m = dictlist_index (map mid (metabolites model)) m"

definition r_ind :: "massmodel \<Rightarrow> string \<Rightarrow> py_error + nat" where
  "r_ind model r = dictlist_index (map rid (reactions model)) r"

definition matrix_constructor :: "matrix_type \<Rightarrow> nat \<times> nat \<Rightarrow> dtype \<Rightarrow> matrix" where
  "matrix_constructor t =
     (case t of Dense \<Rightarrow> np_zeros | Dok \<Rightarrow> dok_zeros | Lil \<Rightarrow> lil_zeros
      | Dataframe \<Rightarrow> np_zeros | Symbolic \<Rightarrow> np_zeros)"

text \<open>
  \<^verbatim>\<open>_setup_matrix_constructor\<close>: the constructor for the requested type, else for the
  model's stored type, else for \<^verbatim>\<open>'dense'\<close>, which is then stored in the model; the
  requested numeric type, else the model's stored one, else \<^verbatim>\<open>np.float64\<close>, which is
  then stored in the model.
\<close>

definition setup_matrix_constructor ::
  "massmodel \<Rightarrow> matrix_type option \<Rightarrow> dtype option
     \<Rightarrow> (nat \<times> nat \<Rightarrow> dtype \<Rightarrow> matrix) \<times> dtype \<times> massmodel" where
  "setup_matrix_constructor model mt dtype =
     (let (t, model1) =
            (case mt of
               Some t \<Rightarrow> (t, model)
             | None \<Rightarrow>
                 (case matrix_type_attr model of
                    Some t \<Rightarrow> (t, model)
                  | None \<Rightarrow> (Dense, model\<lparr>matrix_type_attr := Some Dense\<rparr>)));
          (dt, model2) =
            (case dtype of
               Some d \<Rightarrow> (d, model1)
             | None \<Rightarrow>
                 (case dtype_attr model1 of
                    Some d \<Rightarrow> (d, model1)
                  | None \<Rightarrow> (Float64, model1\<lparr>dtype_attr := Some Float64\<rparr>)))
      in (matrix_constructor t, dt, model2))"

definition update_model_s ::
  "massmodel \<Rightarrow> matrix option \<Rightarrow> matrix_type option \<Rightarrow> dtype option \<Rightarrow> massmodel" where
  "update_model_s model s_matrix mt dtype =
     model\<lparr>S_cache := s_matrix, matrix_type_attr := mt, dtype_attr := dtype\<rparr>"

text \<open>
  The loops of \<^verbatim>\<open>_create_stoichiometric_matrix\<close>:
  \<^verbatim>\<open>for rxn in self.reactions: for metab, stoic in iteritems(rxn.metabolites):
  s_matrix[m_ind(metab), r_ind(rxn)] = stoic\<close>.
\<close>

fun fill_reaction ::
  "massmodel \<Rightarrow> reaction \<Rightarrow> (string \<times> int) list \<Rightarrow> matrix \<Rightarrow> py_error + matrix" where
  "fill_reaction model rxn [] S = Inr S"
| "fill_reaction model rxn ((metab, stoic) # rest) S =
     bind_err (m_ind model metab) (\<lambda>i.
     bind_err (r_ind model (rid rxn)) (\<lambda>j.
     bind_err (mat_set S i j stoic) (\<lambda>S'.
     fill_reaction model rxn rest S')))"

fun fill_matrix :: "massmodel \<Rightarrow> reaction list \<Rightarrow> matrix \<Rightarrow> py_error + matrix" where
  "fill_matrix model [] S = Inr S"
| "fill_matrix model (rxn # rs) S =
     bind_err (fill_reaction model rxn (rmetabolites rxn) S) (fill_matrix model rs)"

text \<open>
  \<^verbatim>\<open>_create_stoichiometric_matrix\<close>.  Without metabolites or without reactions it
  returns \<^verbatim>\<open>None\<close> at once.  Otherwise the matrix is built, wrapped for the types
  \<^verbatim>\<open>'dataframe'\<close> and \<^verbatim>\<open>'symbolic'\<close>, and stored in the model on request, with the type
  as it was passed and the numeric type from the set-up.
\<close>

definition create_stoichiometric_matrix ::
  "massmodel \<Rightarrow> matrix_type option \<Rightarrow> dtype option \<Rightarrow> bool
     \<Rightarrow> py_error + (matrix option \<times> massmodel)" where
  "create_stoichiometric_matrix model mt dtype update_model =
     (let (constructor, dt, model1) = setup_matrix_constructor model mt dtype;
          n_metabolites = length (metabolites model1);
          n_reactions = length (reactions model1)
      in if n_metabolites = 0 \<or> n_reactions = 0 then Inr (None, model1)
         else
           bind_err (fill_matrix model1 (reactions model1)
                       (constructor (n_metabolites, n_reactions) dt)) (\<lambda>s_matrix.
           bind_err (if mt = Some Dataframe
                     then pd_DataFrame s_matrix (map mid (metabolites model1))
                            (map rid (reactions model1))
                     else Inr s_matrix) (\<lambda>s_matrix.
           let s_matrix = (if mt = Some Symbolic then sp_Matrix s_matrix else s_matrix)
           in Inr (Some s_matrix,
                   if update_model then update_model_s model1 (Some s_matrix) mt (Some dt)
                   else model1))))"

text \<open>
  \<^verbatim>\<open>_convert_S\<close> converts the cached matrix \<^verbatim>\<open>self._S\<close>; a cache holding \<^verbatim>\<open>None\<close> has
  no method \<^verbatim>\<open>toarray\<close> and is no argument for a sparse constructor.
\<close>

definition convert_S :: "massmodel \<Rightarrow> matrix_type \<Rightarrow> py_error + matrix" where
  "convert_S model t =
     (case S_cache model of
        None \<Rightarrow> (if t = Lil \<or> t = Dok then Inl TypeError else Inl AttributeError)
      | Some s_matrix \<Rightarrow>
          Inr (case t of Dense \<Rightarrow> to_dense s_matrix | Lil \<Rightarrow> to_lil s_matrix
               | Dok \<Rightarrow> to_dok s_matrix | Dataframe \<Rightarrow> to_dense s_matrix
               | Symbolic \<Rightarrow> to_dense s_matrix))"

text \<open>
  The dictionary \<^verbatim>\<open>coefficient_dictionary\<close> of \<^verbatim>\<open>_update_stoichiometry\<close>, as the list of
  its writes: for each reaction of the list its column, for each of its metabolites
  the row.
\<close>

fun coefficient_items ::
  "massmodel \<Rightarrow> nat \<Rightarrow> (string \<times> int) list \<Rightarrow> py_error + ((nat \<times> nat) \<times> int) list" where
  "coefficient_items model rxn_index [] = Inr []"
| "coefficient_items model rxn_index ((metab, coeff) # rest) =
     bind_err (m_ind model metab) (\<lambda>i.
     bind_err (coefficient_items model rxn_index rest) (\<lambda>items.
     Inr (((i, rxn_index), coeff) # items)))"

fun coefficient_dictionary ::
  "massmodel \<Rightarrow> reaction list \<Rightarrow> py_error + ((nat \<times> nat) \<times> int) list" where
  "coefficient_dictionary model [] = Inr []"
| "coefficient_dictionary model (rxn # rs) =
     bind_err (r_ind model (rid rxn)) (\<lambda>rxn_index.
     bind_err (coefficient_items model rxn_index (rmetabolites rxn)) (\<lambda>items.
     bind_err (coefficient_dictionary model rs) (\<lambda>more.
     Inr (items @ more))))"

text \<open>
  \<^verbatim>\<open>_update_stoichiometry\<close>, statement by statement.  The local \<^verbatim>\<open>s_matrix\<close> is the
  dictionary-of-keys copy of the cache, resized and updated; the statement
  \<^verbatim>\<open>s_matrix = self._convert_S(matrix_type)\<close> then assigns the conversion of the cache
  \<^verbatim>\<open>self._S\<close> to it.
\<close>

definition update_stoichiometry ::
  "massmodel \<Rightarrow> reaction list \<Rightarrow> matrix_type option \<Rightarrow> py_error + matrix" where
  "update_stoichiometry model reaction_list mt =
     (let new_shape = (length (metabolites model), length (reactions model));
          matrix_type = (case mt of None \<Rightarrow> Dense | Some t \<Rightarrow> t)
      in bind_err (convert_S model Dok) (\<lambda>s_matrix.
         let s_matrix = dok_resize s_matrix new_shape in
         bind_err (coefficient_dictionary model reaction_list) (\<lambda>coefficients.
         let s_matrix = dok_update s_matrix coefficients in
         bind_err (convert_S model matrix_type) (\<lambda>s_matrix.
         bind_err (if matrix_type = Dataframe
                   then pd_DataFrame s_matrix (map mid (metabolites model))
                          (map rid (reactions model))
                   else Inr s_matrix) (\<lambda>s_matrix.
         Inr (if matrix_type = Symbolic then sp_Matrix s_matrix else s_matrix))))))"

text \<open>
  \<^verbatim>\<open>update_S\<close>: a full build when there is no cached matrix or no reaction list, else the
  incremental path; the matrix type and the numeric type default to the model's stored
  ones.  The matrix type is a value of \<open>matrix_type\<close>, so the checks of the type's name
  cannot fail.
\<close>

definition update_S ::
  "massmodel \<Rightarrow> reaction list option \<Rightarrow> matrix_type option \<Rightarrow> dtype option \<Rightarrow> bool
     \<Rightarrow> py_error + (matrix option \<times> massmodel)" where
  "update_S model reaction_list mt dtype update_model =
     (let matrix_type = (case mt of Some t \<Rightarrow> Some t | None \<Rightarrow> matrix_type_attr model);
          dtype = (case dtype of Some d \<Rightarrow> Some d | None \<Rightarrow> dtype_attr model)
      in bind_err
           (case (S_cache model, reaction_list) of
              (Some cached, Some rs) \<Rightarrow>
                bind_err (update_stoichiometry model rs matrix_type) (\<lambda>s_matrix.
                Inr (Some s_matrix, model))
            | _ \<Rightarrow> create_stoichiometric_matrix model matrix_type dtype update_model)
           (\<lambda>(s_matrix, model1).
              Inr (s_matrix,
                   if update_model then update_model_s model1 s_matrix matrix_type dtype
                   else model1)))"



section \<open>Well-formed registries and the stoichiometric matrix of a model\<close>









section \<open>Rate laws\<close>

text \<open>
  One side of a rate law, as each of the generators builds it: starting from \<open>start\<close>,
  an exchange reaction with no species on that side multiplies by the symbol of its
  external metabolite; otherwise each species of the side multiplies by its
  concentration, raised to the absolute value of its coefficient unless that is \<open>1\<close>.
\<close>

fun mass_action :: "reaction \<Rightarrow> expr \<Rightarrow> string list \<Rightarrow> expr" where
  "mass_action r rate_law [] = rate_law"
| "mass_action r rate_law (metab # rest) =
     (let metab_ode = MetabFun metab;
          coeff = \<bar>get_coefficient r metab\<bar>
      in mass_action r
           (if coeff = 1 then Mul rate_law metab_ode else Mul rate_law (Pow metab_ode coeff))
           rest)"

definition rate_side :: "reaction \<Rightarrow> expr \<Rightarrow> string list \<Rightarrow> expr" where
  "rate_side r start side =
     (if exchange r \<and> length side = 0
      then Mul start (Symbol (external_metabolite r) True)
      else mass_action r start side)"

text \<open>\<^verbatim>\<open>_generate_rate_expr_type_1\<close>: \<open>kf*(reactants - products/Keq)\<close>.\<close>

definition generate_rate_expr_type_1 :: "reaction \<Rightarrow> expr" where
  "generate_rate_expr_type_1 r =
     (let rate_law_f = rate_side r (Num 1) (reactants r)
      in if \<not> reversible r then Mul (Symbol (sym_kf r) False) rate_law_f
         else
           let rate_law_r = rate_side r (Pow (Symbol (sym_Keq r) False) (- 1)) (products r)
           in Mul (Symbol (sym_kf r) False) (Add rate_law_f (Mul (Num (- 1)) rate_law_r)))"

text \<open>\<^verbatim>\<open>_generate_rate_expr_type_2\<close>: \<open>kf*reactants - kr*products\<close>.\<close>

definition generate_rate_expr_type_2 :: "reaction \<Rightarrow> expr" where
  "generate_rate_expr_type_2 r =
     (let rate_law_f = rate_side r (Symbol (sym_kf r) False) (reactants r)
      in if \<not> reversible r then rate_law_f
         else
           let rate_law_r = rate_side r (Symbol (sym_kr r) False) (products r)
           in Add rate_law_f (Mul (Num (- 1)) rate_law_r))"

text \<open>\<^verbatim>\<open>_generate_rate_expr_type_3\<close>: \<open>kr*(Keq*reactants - products)\<close>.\<close>

definition generate_rate_expr_type_3 :: "reaction \<Rightarrow> expr" where
  "generate_rate_expr_type_3 r =
     (let rate_law_f = rate_side r (Symbol (sym_Keq r) False) (reactants r)
      in if \<not> reversible r then Mul (Symbol (sym_kr r) False) rate_law_f
         else
           let rate_law_r = rate_side r (Num 1) (products r)
           in Mul (Symbol (sym_kr r) False) (Add rate_law_f (Mul (Num (- 1)) rate_law_r)))"

text \<open>
  The values of the three rate constants of a reaction under an assignment, and the
  statement of the spec's consistency law as it is written: Type 2 equals Type 1 times
  \<open>kf\<close> once \<open>Keq = kf/kr\<close>.
\<close>

definition kf_val :: "assignment \<Rightarrow> reaction \<Rightarrow> real" where
  "kf_val \<rho> r = sym_val \<rho> (sym_kf r, False)"

definition kr_val :: "assignment \<Rightarrow> reaction \<Rightarrow> real" where
  "kr_val \<rho> r = sym_val \<rho> (sym_kr r, False)"

definition Keq_val :: "assignment \<Rightarrow> reaction \<Rightarrow> real" where
  "Keq_val \<rho> r = sym_val \<rho> (sym_Keq r, False)"

definition type_2_is_type_1_times_kf :: "assignment \<Rightarrow> reaction \<Rightarrow> bool" where
  "type_2_is_type_1_times_kf \<rho> r \<longleftrightarrow>
     eval_expr \<rho> (generate_rate_expr_type_2 r) =
       eval_expr \<rho> (generate_rate_expr_type_1 r) * kf_val \<rho> r"

section \<open>The rate map and the ODE assembler\<close>

text \<open>
  Writing a key of a dictionary (in place when the key is present, appended otherwise),
  \<^verbatim>\<open>dict.update\<close> and \<^verbatim>\<open>del d[k]\<close>.
\<close>

fun dict_set :: "'k \<Rightarrow> 'v \<Rightarrow> ('k \<times> 'v) list \<Rightarrow> ('k \<times> 'v) list" where
  "dict_set k v [] = [(k, v)]"
| "dict_set k v ((k', v') # rest) =
     (if k' = k then (k, v) # rest else (k', v') # dict_set k v rest)"

definition dict_update :: "('k \<times> 'v) list \<Rightarrow> ('k \<times> 'v) list \<Rightarrow> ('k \<times> 'v) list" where
  "dict_update d other = fold (\<lambda>(k, v) d'. dict_set k v d') other d"

definition dict_del :: "'k \<Rightarrow> ('k \<times> 'v) list \<Rightarrow> py_error + ('k \<times> 'v) list" where
  "dict_del k d =
     (if k \<in> set (map fst d) then Inr (filter (\<lambda>kv. fst kv \<noteq> k) d) else Inl KeyError)"

text \<open>
  The property \<^verbatim>\<open>rates\<close>: the generated rate law of every reaction of the registry,
  then \<^verbatim>\<open>rate_dict.update(self.custom_rates)\<close>.  The method
  \<^verbatim>\<open>rxn.generate_rate_law(rate_type, sympy_expr=True, update_reaction=True)\<close> of a
  reaction is the parameter \<open>generate\<close>; it returns \<^verbatim>\<open>None\<close> for a reaction without
  metabolites and may raise.
\<close>

fun rate_items ::
  "(reaction \<Rightarrow> nat \<Rightarrow> py_error + expr option) \<Rightarrow> nat \<Rightarrow> reaction list
     \<Rightarrow> (string \<times> expr option) list \<Rightarrow> py_error + (string \<times> expr option) list" where
  "rate_items generate t [] rate_dict = Inr rate_dict"
| "rate_items generate t (rxn # rs) rate_dict =
     bind_err (generate rxn t) (\<lambda>law.
     rate_items generate t rs (dict_set (rid rxn) law rate_dict))"

definition rates ::
  "(reaction \<Rightarrow> nat \<Rightarrow> py_error + expr option) \<Rightarrow> massmodel
     \<Rightarrow> py_error + (string \<times> expr option) list" where
  "rates generate model =
     bind_err (rate_items generate (rtype model) (reactions model) []) (\<lambda>rate_dict.
     Inr (if custom_rates model \<noteq> []
          then dict_update rate_dict (map (\<lambda>(k, e). (k, Some e)) (custom_rates model))
          else rate_dict))"

text \<open>
  \<^verbatim>\<open>generate_ode\<close>.  The reactions of the metabolite are summed in the order of
  \<open>m_reaction\<close>; \<open>model\<close> is the model the attribute \<^verbatim>\<open>_model\<close> of a reaction points to
  when it is set; the property \<^verbatim>\<open>rxn.rate_expression\<close> of a reaction is the parameter
  \<open>rate_expression\<close>.  For a reaction with a custom rate the source prints
  \<^verbatim>\<open>FIXME: IMPLEMENT CUSTOM RATES\<close> and returns \<^verbatim>\<open>None\<close>.
\<close>

fun generate_ode_loop ::
  "(reaction \<Rightarrow> expr) \<Rightarrow> massmodel \<Rightarrow> metabolite \<Rightarrow> reaction list \<Rightarrow> expr \<Rightarrow> expr option" where
  "generate_ode_loop rate_expression model metab [] ode = Some ode"
| "generate_ode_loop rate_expression model metab (rxn # rs) ode =
     (if in_model rxn \<and> rid rxn \<in> set (map fst (custom_rates model)) then None
      else
        let rate_law_expr = rate_expression rxn;
            rate_law_expr = (if mid metab \<in> set (reactants rxn)
                             then Mul (Num (- 1)) rate_law_expr else rate_law_expr)
        in generate_ode_loop rate_expression model metab rs (Add ode rate_law_expr))"

definition generate_ode :: "(reaction \<Rightarrow> expr) \<Rightarrow> massmodel \<Rightarrow> metabolite \<Rightarrow> expr option" where
  "generate_ode rate_expression model metab =
     (if length (m_reaction metab) = 0 then None
      else generate_ode_loop rate_expression model metab (m_reaction metab) (Num 0))"

text \<open>
  Modelled from the spec: the property \<^verbatim>\<open>ode\<close> of a metabolite (class MassMetabolite)
  is the ODE assembler's result for that metabolite.  With it, the property \<^verbatim>\<open>odes\<close>
  of the model is \<^verbatim>\<open>{metab: metab.ode for metab in self.metabolites
  if metab not in self.fixed_concentrations}\<close>.  The test is made with the metabolite
  object: a key of \<^verbatim>\<open>fixed_concentrations\<close> that is a string does not exclude the
  metabolite of that name.
\<close>

definition odes :: "(reaction \<Rightarrow> expr) \<Rightarrow> massmodel \<Rightarrow> (string \<times> expr option) list" where
  "odes rate_expression model =
     map (\<lambda>metab. (mid metab, generate_ode rate_expression model metab))
       (filter (\<lambda>metab. fixed_concentrations model (MetabKey (mid metab)) = None)
          (metabolites model))"

text \<open>The sign of a reaction's contribution to the ODE of a metabolite.\<close>

definition ode_sign :: "metabolite \<Rightarrow> reaction \<Rightarrow> real" where
  "ode_sign metab rxn = (if mid metab \<in> set (reactants rxn) then - 1 else 1)"

section \<open>The rate law of a reaction\<close>

text \<open>
  \<^verbatim>\<open>_ignore_h_and_h2o\<close> works on a copy of the reaction: unless the reaction is an
  exchange, every metabolite whose attribute \<^verbatim>\<open>elements\<close> is \<^verbatim>\<open>{'H': 2, 'O': 1}\<close> or
  \<^verbatim>\<open>{'H': 1}\<close> is subtracted with its own coefficient, which removes it from the
  coefficient dictionary.  The parameter \<open>elements\<close> gives the attribute \<^verbatim>\<open>elements\<close>
  of the metabolite with a given identifier, as the list of its items.
\<close>

definition is_h_or_h2o :: "(string \<times> int) list \<Rightarrow> bool" where
  "is_h_or_h2o items \<longleftrightarrow>
     set items = {(''H'', 2), (''O'', 1)} \<or> set items = {(''H'', 1)}"

definition ignore_h_and_h2o :: "(string \<Rightarrow> (string \<times> int) list) \<Rightarrow> reaction \<Rightarrow> reaction" where
  "ignore_h_and_h2o elements reaction =
     (if exchange reaction then reaction
      else reaction\<lparr>rmetabolites :=
             filter (\<lambda>(metab, coefficient). \<not> is_h_or_h2o (elements metab))
               (rmetabolites reaction)\<rparr>)"

text \<open>
  \<^verbatim>\<open>generate_rate_law\<close> of the module \<^verbatim>\<open>expressions\<close>, called with
  \<^verbatim>\<open>sympy_expr=True\<close>: \<^verbatim>\<open>None\<close> for a reaction without metabolites, ValueError for a
  rate type other than 1, 2 and 3, else the expression of that type for the reaction
  without hydrogen and water.  The rate type is an integer here, so the checks of the
  argument types cannot fail; the attributes that \<^verbatim>\<open>update_reaction\<close> stores in the
  reaction are not read by the code below.
\<close>

definition generate_rate_law ::
  "(string \<Rightarrow> (string \<times> int) list) \<Rightarrow> reaction \<Rightarrow> nat \<Rightarrow> py_error + expr option" where
  "generate_rate_law elements reaction rate_type =
     (if length (rmetabolites reaction) = 0 then Inr None
      else
        let rxn = ignore_h_and_h2o elements reaction
        in if rate_type = 1 then Inr (Some (generate_rate_expr_type_1 rxn))
           else if rate_type = 2 then Inr (Some (generate_rate_expr_type_2 rxn))
           else if rate_type = 3 then Inr (Some (generate_rate_expr_type_3 rxn))
           else Inl ValueError)"

text \<open>
  The method \<^verbatim>\<open>generate_rate_laws\<close> of the model, called without a reaction list, with
  \<^verbatim>\<open>sympy_expr=True\<close> and \<^verbatim>\<open>update_reactions=False\<close>: ValueError for a rate type other
  than 1, 2 and 3, \<^verbatim>\<open>None\<close> for a model without reactions, else the dictionary of the
  generated rate laws of the registry's reactions, updated with the custom rates.  As in
  \<open>rates\<close>, the method \<^verbatim>\<open>generate_rate_law\<close> of a reaction is the parameter \<open>generate\<close>.
\<close>

definition generate_rate_laws ::
  "(reaction \<Rightarrow> nat \<Rightarrow> py_error + expr option) \<Rightarrow> massmodel \<Rightarrow> nat
     \<Rightarrow> py_error + (string \<times> expr option) list option" where
  "generate_rate_laws generate model rate_type =
     (if rate_type \<notin> {1, 2, 3} then Inl ValueError
      else if length (reactions model) = 0 then Inr None
      else
        bind_err (rate_items generate rate_type (reactions model) []) (\<lambda>rate_dict.
        Inr (Some (if custom_rates model \<noteq> []
                   then dict_update rate_dict
                          (map (\<lambda>(k, e). (k, Some e)) (custom_rates model))
                   else rate_dict))))"

section \<open>Custom rates\<close>

text \<open>
  The names bound in the module \<^verbatim>\<open>mass.core.expressions\<close>, which \<^verbatim>\<open>massmodel.py\<close>
  imports as \<^verbatim>\<open>expressions\<close>: its imports, the time symbol and its functions.  Reading
  an attribute of the module that is not among them raises AttributeError.
\<close>

definition expressions_names :: "string list" where
  "expressions_names =
     [''absolute_import'', ''re'', ''sp'', ''iterkeys'', ''iteritems'', ''integer_types'',
      ''DictList'', ''massmetabolite'', ''massreaction'', ''massmodel'', ''t'',
      ''generate_rate_law'', ''get_mass_action_ratio'', ''get_disequilibrium_ratio'',
      ''generate_ode'', ''strip_time'', ''_generate_rate_type_1'', ''_generate_rate_type_2'',
      ''_generate_rate_type_3'', ''_generate_rate_expr_type_1'',
      ''_generate_rate_expr_type_2'', ''_generate_rate_expr_type_3'',
      ''_get_mass_action_ratio_expr'', ''_sort_symbols'', ''_ignore_h_and_h2o'']"

definition expressions_getattr :: "string \<Rightarrow> py_error + unit" where
  "expressions_getattr name =
     (if name \<in> set expressions_names then Inr () else Inl AttributeError)"

text \<open>
  \<^verbatim>\<open>add_custom_rate\<close>.  The list of parameter names is the supplied names followed by
  the known custom parameters that \<^verbatim>\<open>re.search\<close> finds in the rate string (the
  parameter \<open>re_search\<close>).  The expression is then built by
  \<^verbatim>\<open>expressions.create_custom_rate(reaction, custom_rate, custom_param_list)\<close>; what
  that function would return is the parameter \<open>create_custom_rate\<close>, used once the
  attribute is found in the module.  The undo log of an active context is not
  modelled: it records closures and does not change the state.
\<close>

definition add_custom_rate ::
  "(string \<Rightarrow> string \<Rightarrow> bool) \<Rightarrow> (reaction \<Rightarrow> string \<Rightarrow> string list \<Rightarrow> expr) \<Rightarrow> massmodel
     \<Rightarrow> reaction \<Rightarrow> string \<Rightarrow> (string \<times> real) list option \<Rightarrow> py_error + massmodel" where
  "add_custom_rate re_search create_custom_rate model reaction custom_rate supplied =
     (let custom_param_list = (case supplied of Some ps \<Rightarrow> map fst ps | None \<Rightarrow> []);
          supplied_parameters = (case supplied of Some ps \<Rightarrow> ps | None \<Rightarrow> []);
          existing_customs = custom_parameters model;
          custom_param_list =
            (if length existing_customs \<noteq> 0
             then fold (\<lambda>custom_param names.
                          if re_search custom_param custom_rate \<and> custom_param \<notin> set names
                          then names @ [custom_param] else names)
                    (map fst existing_customs) custom_param_list
             else custom_param_list)
      in bind_err (expressions_getattr ''create_custom_rate'') (\<lambda>found.
         let custom_rate_expression = create_custom_rate reaction custom_rate custom_param_list
         in Inr (model\<lparr>custom_rates :=
                          dict_update (custom_rates model)
                            [(rid reaction, custom_rate_expression)],
                        custom_parameters :=
                          dict_update (custom_parameters model) supplied_parameters\<rparr>)))"

text \<open>
  \<^verbatim>\<open>remove_custom_rate\<close>.  The symbols of the removed rate that occur in no remaining
  custom rate are deleted from the custom parameters, one \<^verbatim>\<open>del\<close> after the other;
  \<^verbatim>\<open>del\<close> raises KeyError for a name that is no key.
\<close>

fun del_parameters :: "string list \<Rightarrow> (string \<times> real) list \<Rightarrow> py_error + (string \<times> real) list" where
  "del_parameters [] ps = Inr ps"
| "del_parameters (name # names) ps = bind_err (dict_del name ps) (del_parameters names)"

definition remove_custom_rate :: "massmodel \<Rightarrow> reaction \<Rightarrow> py_error + massmodel" where
  "remove_custom_rate model reaction =
     (case map_of (custom_rates model) (rid reaction) of
        None \<Rightarrow> Inl KeyError
      | Some custom_rate_to_remove \<Rightarrow>
          let remaining = filter (\<lambda>kv. fst kv \<noteq> rid reaction) (custom_rates model);
              symbols = atoms_Symbol custom_rate_to_remove;
              symbols =
                (if length remaining \<noteq> 0
                 then
                   let other_syms = remdups (concat (map (\<lambda>kv. atoms_Symbol (snd kv)) remaining))
                   in fold (\<lambda>symb syms. if symb \<in> set syms then remove1 symb syms else syms)
                        other_syms symbols
                 else symbols)
          in bind_err (del_parameters (map str_sym symbols) (custom_parameters model)) (\<lambda>ps.
             Inr (model\<lparr>custom_rates := remaining, custom_parameters := ps\<rparr>)))"

section \<open>The symbol classifier\<close>

text \<open>\<^verbatim>\<open>re.search\<close> for a pattern without special characters: the pattern occurs in the string.\<close>

fun re_search_literal :: "string \<Rightarrow> string \<Rightarrow> bool" where
  "re_search_literal pat [] = (pat = [])"
| "re_search_literal pat (c # cs) =
     (take (length pat) (c # cs) = pat \<or> re_search_literal pat cs)"

text \<open>
  \<^verbatim>\<open>expression.atoms(sp.Function)\<close>: the concentration functions of an expression, each
  given by the identifier of its metabolite (\<^verbatim>\<open>str(func)[:-3]\<close>, the name without
  \<^verbatim>\<open>(t)\<close>).
\<close>

fun atoms_Function :: "expr \<Rightarrow> string list" where
  "atoms_Function (Num c) = []"
| "atoms_Function (Symbol s nn) = []"
| "atoms_Function (MetabFun m) = [m]"
| "atoms_Function (Add a b) = remdups (atoms_Function a @ atoms_Function b)"
| "atoms_Function (Mul a b) = remdups (atoms_Function a @ atoms_Function b)"
| "atoms_Function (Pow a n) = atoms_Function a"

text \<open>
  The four sets of \<^verbatim>\<open>_sort_symbols\<close>: \<^verbatim>\<open>metab_funcs\<close>, \<^verbatim>\<open>rate_symbols\<close>,
  \<^verbatim>\<open>fixed_symbols\<close> and \<^verbatim>\<open>custom_symbols\<close> (the caller names the last three
  \<^verbatim>\<open>rate_params\<close>, \<^verbatim>\<open>fixed_concs\<close> and \<^verbatim>\<open>custom_params\<close>).  A set is a list without
  repetitions; the code only tests membership in it.
\<close>

record symbol_sets =
  metab_funcs :: "string list"
  rate_params :: "symbol list"
  fixed_concs :: "symbol list"
  custom_params :: "symbol list"

text \<open>
  The loop \<^verbatim>\<open>for sym in symbols\<close> of \<^verbatim>\<open>_sort_symbols\<close>: three independent tests on the
  name of the symbol.  The name is a string, so among the keys of
  \<^verbatim>\<open>fixed_concentrations\<close> it can only equal a string.  The pattern \<^verbatim>\<open>kf|Keq|kr\<close> is
  found when one of the three alternatives occurs.
\<close>

fun classify_symbols :: "massmodel \<Rightarrow> symbol list \<Rightarrow> symbol_sets \<Rightarrow> symbol_sets" where
  "classify_symbols model [] sets = sets"
| "classify_symbols model (symb # syms) sets =
     (let sym_str = str_sym symb;
          sets = (if fixed_concentrations model (StrKey sym_str) \<noteq> None
                  then sets\<lparr>fixed_concs := List.insert symb (fixed_concs sets)\<rparr> else sets);
          sets = (if re_search_literal ''kf'' sym_str \<or> re_search_literal ''Keq'' sym_str
                     \<or> re_search_literal ''kr'' sym_str
                  then sets\<lparr>rate_params := List.insert symb (rate_params sets)\<rparr> else sets);
          sets = (if sym_str \<in> set (map fst (custom_parameters model))
                  then sets\<lparr>custom_params := List.insert symb (custom_params sets)\<rparr> else sets)
      in classify_symbols model syms sets)"

text \<open>
  The loop \<^verbatim>\<open>for func in functions\<close>.  \<^verbatim>\<open>get_by_id\<close> raises KeyError for an identifier
  that is not in the registry.  For a metabolite that is a key of
  \<^verbatim>\<open>fixed_concentrations\<close> the branch reads \<^verbatim>\<open>model.rate_expressions\<close>, an attribute
  that the model does not have, which raises AttributeError.
\<close>

fun classify_functions :: "massmodel \<Rightarrow> string list \<Rightarrow> symbol_sets \<Rightarrow> py_error + symbol_sets" where
  "classify_functions model [] sets = Inr sets"
| "classify_functions model (func # funcs) sets =
     (if func \<notin> set (map mid (metabolites model)) then Inl KeyError
      else if fixed_concentrations model (MetabKey func) \<noteq> None then Inl AttributeError
      else classify_functions model funcs
             (sets\<lparr>metab_funcs := List.insert func (metab_funcs sets)\<rparr>))"

text \<open>
  The loop \<^verbatim>\<open>for item, expression in iteritems(model.odes)\<close>.  An ODE that is \<^verbatim>\<open>None\<close>
  has no method \<^verbatim>\<open>atoms\<close>.
\<close>

fun sort_symbols_loop ::
  "massmodel \<Rightarrow> (string \<times> expr option) list \<Rightarrow> symbol_sets \<Rightarrow> py_error + symbol_sets" where
  "sort_symbols_loop model [] sets = Inr sets"
| "sort_symbols_loop model ((item, expression) # rest) sets =
     (case expression of
        None \<Rightarrow> Inl AttributeError
      | Some e \<Rightarrow>
          bind_err (classify_functions model (atoms_Function e)
                      (classify_symbols model (atoms_Symbol e) sets))
            (sort_symbols_loop model rest))"

text \<open>
  \<^verbatim>\<open>_sort_symbols(model)\<close>: the rate type is the model's; the result is the ODE
  dictionary, the rate dictionary and the four sets.  The property \<^verbatim>\<open>rate_expression\<close>
  and the method \<^verbatim>\<open>generate_rate_law\<close> of a reaction are the parameters
  \<open>rate_expression\<close> and \<open>generate\<close>, as in \<open>odes\<close> and \<open>rates\<close>.
\<close>

definition sort_symbols ::
  "(reaction \<Rightarrow> nat \<Rightarrow> py_error + expr option) \<Rightarrow> (reaction \<Rightarrow> expr) \<Rightarrow> massmodel
     \<Rightarrow> py_error + ((string \<times> expr option) list \<times> (string \<times> expr option) list option
                     \<times> symbol_sets)" where
  "sort_symbols generate rate_expression model =
     (let rate_type = rtype model;
          ode_dict = odes rate_expression model
      in bind_err (generate_rate_laws generate model rate_type) (\<lambda>rate_dict.
         bind_err (sort_symbols_loop model (odes rate_expression model)
                     \<lparr>metab_funcs = [], rate_params = [], fixed_concs = [],
                      custom_params = []\<rparr>) (\<lambda>sets.
         Inr (ode_dict, rate_dict, sets))))"

text \<open>
  \<^verbatim>\<open>strip_time\<close> replaces every concentration function of every expression of a
  dictionary by the symbol \<^verbatim>\<open>sp.Symbol(str(m_func)[:-3])\<close>, which carries no
  assumption.  \<^verbatim>\<open>None\<close> is no dictionary and, as a value of the dictionary, no
  expression: both raise AttributeError.
\<close>

fun strip_time_expr :: "expr \<Rightarrow> expr" where
  "strip_time_expr (Num c) = Num c"
| "strip_time_expr (Symbol s nn) = Symbol s nn"
| "strip_time_expr (MetabFun m) = Symbol m False"
| "strip_time_expr (Add a b) = Add (strip_time_expr a) (strip_time_expr b)"
| "strip_time_expr (Mul a b) = Mul (strip_time_expr a) (strip_time_expr b)"
| "strip_time_expr (Pow a n) = Pow (strip_time_expr a) n"

fun strip_time_items :: "(string \<times> expr option) list \<Rightarrow> py_error + (string \<times> expr) list" where
  "strip_time_items [] = Inr []"
| "strip_time_items ((item, expression) # rest) =
     (case expression of
        None \<Rightarrow> Inl AttributeError
      | Some e \<Rightarrow>
          bind_err (strip_time_items rest) (\<lambda>stripped.
          Inr ((item, strip_time_expr e) # stripped)))"

definition strip_time ::
  "(string \<times> expr option) list option \<Rightarrow> py_error + (string \<times> expr) list" where
  "strip_time sympy_expr_dict =
     (case sympy_expr_dict of None \<Rightarrow> Inl AttributeError | Some d \<Rightarrow> strip_time_items d)"

section \<open>The steady-state parameter solver\<close>

text \<open>
  The state of the loop of \<^verbatim>\<open>calc_PERCS\<close>: the dictionary \<^verbatim>\<open>percs_dict\<close>, the local
  variable \<^verbatim>\<open>perc\<close> (unbound until a rate-constant symbol has been met; it keeps its
  value from one reaction to the next) and the assignments \<^verbatim>\<open>rxn.kf = ...\<close>.
\<close>

record percs_state =
  percs_dict :: "(string \<times> real) list"
  perc :: "symbol option"
  kf_assigned :: "(string \<times> real) list"

definition dict_get :: "('k \<times> 'v) list \<Rightarrow> 'k \<Rightarrow> py_error + 'v" where
  "dict_get d k = (case map_of d k of None \<Rightarrow> Inl KeyError | Some v \<Rightarrow> Inr v)"

definition map_get :: "('k \<Rightarrow> 'v option) \<Rightarrow> 'k \<Rightarrow> py_error + 'v" where
  "map_get d k = (case d k of None \<Rightarrow> Inl KeyError | Some v \<Rightarrow> Inr v)"

text \<open>
  The inner loop \<^verbatim>\<open>for sym in symbols\<close>: the dictionary \<^verbatim>\<open>values\<close> of the known values
  and the variable \<^verbatim>\<open>perc\<close>.  The value of a metabolite's symbol is read from
  \<^verbatim>\<open>self.initial_conditions\<close>.  \<^verbatim>\<open>get_by_id\<close> raises KeyError for an identifier that is
  not in the registry.  The set \<^verbatim>\<open>rate.atoms(sp.Symbol)\<close> is visited in the order of
  \<open>atoms_Symbol\<close>.
\<close>

fun collect_values ::
  "massmodel \<Rightarrow> symbol_sets \<Rightarrow> reaction \<Rightarrow> symbol list
     \<Rightarrow> (symbol \<times> real option) list \<times> symbol option
     \<Rightarrow> py_error + ((symbol \<times> real option) list \<times> symbol option)" where
  "collect_values model classified rxn [] acc = Inr acc"
| "collect_values model classified rxn (symb # syms) (vals, perc_var) =
     bind_err
       (if symb \<in> set (rate_params classified) then
          (if re_search_literal ''Keq'' (str_sym symb)
           then Inr (dict_set symb (Keq rxn) vals, perc_var)
           else Inr (vals, Some symb))
        else if symb \<in> set (custom_params classified) then
          bind_err (dict_get (custom_parameters model) (str_sym symb)) (\<lambda>v.
          Inr (dict_set symb (Some v) vals, perc_var))
        else if symb \<in> set (fixed_concs classified) then
          bind_err (map_get (fixed_concentrations model) (StrKey (str_sym symb))) (\<lambda>v.
          Inr (dict_set symb (Some v) vals, perc_var))
        else
          (if str_sym symb \<in> set (map mid (metabolites model))
           then bind_err (map_get (initial_conditions model) (str_sym symb)) (\<lambda>v.
                Inr (dict_set symb (Some v) vals, perc_var))
           else Inl KeyError))
       (collect_values model classified rxn syms)"

text \<open>\<^verbatim>\<open>sol.pop()\<close> on the set of solutions, given in the order in which it pops.\<close>

definition set_pop :: "real list \<Rightarrow> py_error + real" where
  "set_pop sol = (case sol of [] \<Rightarrow> Inl KeyError | x # rest \<Rightarrow> Inr x)"

definition bound_perc :: "symbol option \<Rightarrow> py_error + symbol" where
  "bound_perc perc_var = (case perc_var of None \<Rightarrow> Inl UnboundLocalError | Some p \<Rightarrow> Inr p)"

text \<open>
  The keys of the rate dictionary are reactions of the registry and reactions with a
  custom rate; a key is an identifier here, and its reaction is the one of the registry.
  A custom rate for a reaction that is not registered is outside this model (the lookup
  then gives KeyError).
\<close>

definition reaction_of_key :: "massmodel \<Rightarrow> string \<Rightarrow> py_error + reaction" where
  "reaction_of_key model k =
     (case filter (\<lambda>rxn. rid rxn = k) (reactions model) of
        [] \<Rightarrow> Inl KeyError | rxn # rest \<Rightarrow> Inr rxn)"

text \<open>
  One pass of the loop \<^verbatim>\<open>for rxn, rate in iteritems(rates)\<close>.  The parameter \<open>solveset\<close>
  is \<^verbatim>\<open>set(sp.solveset(sp.Eq(flux, rate.subs(values)), perc, domain=sp.S.Reals))\<close>: it
  gets the flux, the rate expression, the values and the unknown, and returns the real
  solutions.
\<close>

definition percs_iteration ::
  "(real \<Rightarrow> expr \<Rightarrow> (symbol \<times> real option) list \<Rightarrow> symbol \<Rightarrow> py_error + real list)
     \<Rightarrow> massmodel \<Rightarrow> symbol_sets \<Rightarrow> (string \<Rightarrow> real option) \<Rightarrow> real \<Rightarrow> bool
     \<Rightarrow> string \<times> expr \<Rightarrow> percs_state \<Rightarrow> py_error + percs_state" where
  "percs_iteration solveset model classified steady_state_fluxes at_equilibrium_default
     update_reactions item st =
     (let rate = snd item
      in bind_err (reaction_of_key model (fst item)) (\<lambda>rxn.
         bind_err (collect_values model classified rxn (atoms_Symbol rate) ([], perc st))
           (\<lambda>(vals, perc_var).
         bind_err (map_get steady_state_fluxes (rid rxn)) (\<lambda>flux.
         bind_err (if flux = 0 then Inr [at_equilibrium_default]
                   else bind_err (bound_perc perc_var) (solveset flux rate vals)) (\<lambda>sol.
         bind_err (bound_perc perc_var) (\<lambda>p.
         bind_err (set_pop sol) (\<lambda>popped.
         Inr (st\<lparr>percs_dict := dict_set (str_sym p) popped (percs_dict st),
                 perc := perc_var,
                 kf_assigned := (if update_reactions
                                 then dict_set (rid rxn) popped (kf_assigned st)
                                 else kf_assigned st)\<rparr>))))))))"

fun percs_loop ::
  "(real \<Rightarrow> expr \<Rightarrow> (symbol \<times> real option) list \<Rightarrow> symbol \<Rightarrow> py_error + real list)
     \<Rightarrow> massmodel \<Rightarrow> symbol_sets \<Rightarrow> (string \<Rightarrow> real option) \<Rightarrow> real \<Rightarrow> bool
     \<Rightarrow> (string \<times> expr) list \<Rightarrow> percs_state \<Rightarrow> py_error + percs_state" where
  "percs_loop solveset model classified fluxes dflt upd [] st = Inr st"
| "percs_loop solveset model classified fluxes dflt upd (item # items) st =
     bind_err (percs_iteration solveset model classified fluxes dflt upd item st)
       (percs_loop solveset model classified fluxes dflt upd items)"

text \<open>
  The fluxes the loop reads: the supplied dictionary, else the property
  \<^verbatim>\<open>steady_state_fluxes\<close> of the model, which holds the stored flux of every reaction
  that has one.
\<close>

definition flux_map :: "massmodel \<Rightarrow> (string \<Rightarrow> real option) option \<Rightarrow> string \<Rightarrow> real option" where
  "flux_map model steady_state_fluxes =
     (case steady_state_fluxes of
        None \<Rightarrow> (\<lambda>r. case filter (\<lambda>rxn. rid rxn = r) (reactions model) of
                         [] \<Rightarrow> None | rxn # rest \<Rightarrow> ssflux rxn)
      | Some f \<Rightarrow> f)"

text \<open>
  The checks of \<^verbatim>\<open>calc_PERCS\<close> for missing values: the dictionary \<^verbatim>\<open>missing_params\<close>
  and the list \<^verbatim>\<open>missing_concs\<close>.  The result of \<^verbatim>\<open>qcqa.get_missing_parameters\<close> (called
  with \<^verbatim>\<open>ssflux=True\<close> when no fluxes are supplied, with \<^verbatim>\<open>ssflux=False\<close> otherwise) is
  the parameter \<open>missing_parameters\<close>.  The concentrations are the supplied ones, else
  the model's initial conditions.
\<close>

definition missing_values ::
  "(bool \<Rightarrow> (string \<times> string list) list) \<Rightarrow> massmodel \<Rightarrow> (string \<Rightarrow> real option) option
     \<Rightarrow> (string \<Rightarrow> real option) option \<Rightarrow> (string \<times> string list) list \<times> metabolite list" where
  "missing_values missing_parameters model steady_state_concentrations steady_state_fluxes =
     (let concentrations = (case steady_state_concentrations of
                              None \<Rightarrow> initial_conditions model | Some c \<Rightarrow> c);
          missing_params =
            (case steady_state_fluxes of
               None \<Rightarrow> missing_parameters True
             | Some f \<Rightarrow>
                 fold (\<lambda>rxn missing.
                         if f (rid rxn) = None
                         then (case map_of missing (rid rxn) of
                                 Some m \<Rightarrow> dict_set (rid rxn) (m @ [''ssflux'']) missing
                               | None \<Rightarrow> dict_set (rid rxn) [''ssflux''] missing)
                         else missing)
                   (reactions model) (missing_parameters False));
          missing_concs = filter (\<lambda>m. concentrations (mid m) = None) (metabolites model)
      in (missing_params, missing_concs))"

text \<open>
  \<^verbatim>\<open>calc_PERCS\<close>.  With missing values the method warns and returns \<^verbatim>\<open>None\<close>.
  Otherwise the rate type is set to 1, the symbols are sorted, the time dependency is
  stripped from the rates and the loop runs over the rates.
\<close>

definition calc_PERCS ::
  "(real \<Rightarrow> expr \<Rightarrow> (symbol \<times> real option) list \<Rightarrow> symbol \<Rightarrow> py_error + real list)
     \<Rightarrow> (bool \<Rightarrow> (string \<times> string list) list)
     \<Rightarrow> (reaction \<Rightarrow> nat \<Rightarrow> py_error + expr option) \<Rightarrow> (reaction \<Rightarrow> expr)
     \<Rightarrow> massmodel \<Rightarrow> (string \<Rightarrow> real option) option \<Rightarrow> (string \<Rightarrow> real option) option
     \<Rightarrow> real \<Rightarrow> bool \<Rightarrow> py_error + percs_state option" where
  "calc_PERCS solveset missing_parameters generate rate_expression model
     steady_state_concentrations steady_state_fluxes at_equilibrium_default update_reactions =
     (let (missing_params, missing_concs) =
            missing_values missing_parameters model steady_state_concentrations
              steady_state_fluxes
      in if length missing_params \<noteq> 0 \<or> length missing_concs \<noteq> 0 then Inr None
         else
           let model1 = model\<lparr>rtype := 1\<rparr>
           in bind_err (sort_symbols generate rate_expression model1)
                (\<lambda>(ode_dict, rate_dict, classified).
              bind_err (strip_time rate_dict) (\<lambda>stripped.
              bind_err
                (percs_loop solveset model1 classified (flux_map model steady_state_fluxes)
                   at_equilibrium_default update_reactions stripped
                   \<lparr>percs_dict = [], perc = None, kf_assigned = []\<rparr>)
                (\<lambda>st. Inr (Some st)))))"

text \<open>
  The value of \<^verbatim>\<open>rate.subs(values)\<close> when the unknown takes the value \<open>x\<close>; a symbol
  without a value counts as \<open>0\<close>.
\<close>

definition subs_eval :: "(symbol \<times> real option) list \<Rightarrow> symbol \<Rightarrow> real \<Rightarrow> expr \<Rightarrow> real" where
  "subs_eval vals p x rate =
     eval_expr
       \<lparr>sym_val = (\<lambda>s. if s = p then x
                        else (case map_of vals s of Some (Some v) \<Rightarrow> v | _ \<Rightarrow> 0)),
        conc_val = (\<lambda>m. 0)\<rparr> rate"

section \<open>Adding reactions: objects and references\<close>

text \<open>
  \<^verbatim>\<open>add_reactions\<close> replaces the metabolite objects of a new reaction by the objects of
  the registry, so here the objects have identities: a metabolite, reaction or gene
  object is a reference (a number) into a store.  A metabolite object carries its
  identifier, its initial condition, its back-reference set \<^verbatim>\<open>_reaction\<close> and whether
  \<^verbatim>\<open>_model\<close> is the model; a reaction object carries its identifier, its dictionary
  \<^verbatim>\<open>_metabolites\<close> keyed by metabolite objects, its set \<^verbatim>\<open>_genes\<close> (in the order in
  which it is iterated) and whether \<^verbatim>\<open>_model\<close> is the model; a gene object carries its
  identifier, its back-reference set and whether \<^verbatim>\<open>_model\<close> is the model.  The model
  holds the three DictLists, the dictionary \<^verbatim>\<open>initial_conditions\<close>, keyed by metabolite
  objects, and the attributes \<^verbatim>\<open>_S\<close>, \<^verbatim>\<open>_matrix_type\<close> and \<^verbatim>\<open>_dtype\<close>.
\<close>

record metabolite_obj =
  o_id :: string
  o_ic :: "real option"
  o_reaction :: "nat set"
  o_model :: bool

record reaction_obj =
  r_id :: string
  r_metabolites :: "(nat \<times> int) list"
  r_genes :: "nat list"
  r_model :: bool

record gene_obj =
  g_id :: string
  g_reaction :: "nat set"
  g_model :: bool

record object_model =
  metabolite_at :: "nat \<Rightarrow> metabolite_obj"
  reaction_at :: "nat \<Rightarrow> reaction_obj"
  gene_at :: "nat \<Rightarrow> gene_obj"
  registered_metabolites :: "nat list"
  registered_reactions :: "nat list"
  registered_genes :: "nat list"
  ic_map :: "nat \<Rightarrow> real option"
  stored_S :: "matrix option"
  stored_matrix_type :: "matrix_type option"
  stored_dtype :: "dtype option"

definition metabolite_ids :: "object_model \<Rightarrow> string list" where
  "metabolite_ids H = map (\<lambda>a. o_id (metabolite_at H a)) (registered_metabolites H)"

definition reaction_ids :: "object_model \<Rightarrow> string list" where
  "reaction_ids H = map (\<lambda>a. r_id (reaction_at H a)) (registered_reactions H)"

definition gene_ids :: "object_model \<Rightarrow> string list" where
  "gene_ids H = map (\<lambda>a. g_id (gene_at H a)) (registered_genes H)"

text \<open>\<^verbatim>\<open>DictList.get_by_id\<close>: the object of the list with the identifier, else KeyError.\<close>

fun get_by_id :: "(nat \<Rightarrow> string) \<Rightarrow> nat list \<Rightarrow> string \<Rightarrow> py_error + nat" where
  "get_by_id ident [] k = Inl KeyError"
| "get_by_id ident (a # rest) k = (if ident a = k then Inr a else get_by_id ident rest k)"

text \<open>\<^verbatim>\<open>d.pop(k)\<close>: the value of the key and the dictionary without it, else KeyError.\<close>

definition dict_pop :: "'k \<Rightarrow> ('k \<times> 'v) list \<Rightarrow> py_error + ('v \<times> ('k \<times> 'v) list)" where
  "dict_pop k d =
     (case map_of d k of
        None \<Rightarrow> Inl KeyError
      | Some v \<Rightarrow> Inr (v, filter (\<lambda>kv. fst kv \<noteq> k) d))"

text \<open>
  \<^verbatim>\<open>update_initial_conditions\<close> (with \<^verbatim>\<open>update_metabolites=False\<close>): the entries whose
  metabolite is in the model and whose value is not \<^verbatim>\<open>None\<close> are written to
  \<^verbatim>\<open>initial_conditions\<close>.  \<^verbatim>\<open>set_initial_conditions\<close> passes the stored initial
  condition of each listed metabolite that is in the model.
\<close>

definition update_initial_conditions ::
  "object_model \<Rightarrow> (nat \<times> real option) list \<Rightarrow> object_model" where
  "update_initial_conditions H ic_dict =
     (if length ic_dict = 0 then H
      else
        let ic_dict = filter (\<lambda>(metab, ic). o_id (metabolite_at H metab) \<in> set (metabolite_ids H)
                                           \<and> ic \<noteq> None) ic_dict
        in H\<lparr>ic_map := fold (\<lambda>(metab, ic) f. f(metab := ic)) ic_dict (ic_map H)\<rparr>)"

definition set_initial_conditions :: "object_model \<Rightarrow> nat list \<Rightarrow> py_error + object_model" where
  "set_initial_conditions H ms =
     (if \<not> distinct (map (\<lambda>a. o_id (metabolite_at H a)) ms) then Inl ValueError
      else if length ms = 0 then Inr H
      else
        let ms = filter (\<lambda>metab. o_id (metabolite_at H metab) \<in> set (metabolite_ids H)) ms
        in Inr (update_initial_conditions H
                  (map (\<lambda>metab. (metab, o_ic (metabolite_at H metab))) ms)))"

text \<open>
  \<^verbatim>\<open>add_metabolites\<close>: \<^verbatim>\<open>DictList(metabolite_list)\<close> raises ValueError for a repeated
  identifier; the metabolites whose identifier is not yet in the model get the model
  as \<^verbatim>\<open>_model\<close> and are appended to the registry, and their initial conditions are
  added on request.
\<close>

definition add_metabolites :: "object_model \<Rightarrow> nat list \<Rightarrow> bool \<Rightarrow> py_error + object_model" where
  "add_metabolites H ms add_initial_conditons =
     (if \<not> distinct (map (\<lambda>a. o_id (metabolite_at H a)) ms) then Inl ValueError
      else if length ms = 0 then Inr H
      else
        let ms = filter (\<lambda>metab. o_id (metabolite_at H metab) \<notin> set (metabolite_ids H)) ms;
            H1 = H\<lparr>metabolite_at :=
                     fold (\<lambda>metab f. f(metab := (f metab)\<lparr>o_model := True\<rparr>)) ms
                       (metabolite_at H)\<rparr>;
            H2 = H1\<lparr>registered_metabolites := registered_metabolites H1 @ ms\<rparr>
        in if add_initial_conditons then set_initial_conditions H2 ms else Inr H2)"

text \<open>
  The body of the loop \<^verbatim>\<open>for metab in list(iterkeys(rxn._metabolites))\<close> of
  \<^verbatim>\<open>add_reactions\<close>: a metabolite whose identifier is not in the model is added with
  its initial condition; otherwise the key of the reaction's dictionary is replaced by
  the model's metabolite of that identifier.  In both cases the reaction is added to
  the back-references of the metabolite of the model.
\<close>

definition add_back_reference :: "object_model \<Rightarrow> nat \<Rightarrow> nat \<Rightarrow> object_model" where
  "add_back_reference H metab rxn =
     H\<lparr>metabolite_at :=
         (metabolite_at H)(metab :=
            (metabolite_at H metab)\<lparr>o_reaction := insert rxn (o_reaction (metabolite_at H metab))\<rparr>)\<rparr>"

definition link_metabolite :: "object_model \<Rightarrow> nat \<Rightarrow> nat \<Rightarrow> py_error + object_model" where
  "link_metabolite H rxn metab =
     (if o_id (metabolite_at H metab) \<notin> set (metabolite_ids H) then
        bind_err (add_metabolites H [metab] True) (\<lambda>H1.
        Inr (add_back_reference H1 metab rxn))
      else
        bind_err (dict_pop metab (r_metabolites (reaction_at H rxn))) (\<lambda>(coefficient, d).
        bind_err (get_by_id (\<lambda>a. o_id (metabolite_at H a)) (registered_metabolites H)
                    (o_id (metabolite_at H metab))) (\<lambda>model_metab.
        let H1 = H\<lparr>reaction_at :=
                     (reaction_at H)(rxn :=
                        (reaction_at H rxn)\<lparr>r_metabolites :=
                                               dict_set model_metab coefficient d\<rparr>)\<rparr>
        in Inr (add_back_reference H1 model_metab rxn))))"

fun link_metabolites :: "object_model \<Rightarrow> nat \<Rightarrow> nat list \<Rightarrow> py_error + object_model" where
  "link_metabolites H rxn [] = Inr H"
| "link_metabolites H rxn (metab # rest) =
     bind_err (link_metabolite H rxn metab) (\<lambda>H1. link_metabolites H1 rxn rest)"

text \<open>
  The methods \<^verbatim>\<open>_dissociate_gene\<close> and \<^verbatim>\<open>_associate_gene\<close> of a reaction, as in
  cobra: the first discards the gene from the reaction's genes and the reaction from
  the gene's back-references; the second adds them and lets the gene point to the
  reaction's model.
\<close>

definition dissociate_gene :: "object_model \<Rightarrow> nat \<Rightarrow> nat \<Rightarrow> object_model" where
  "dissociate_gene H rxn gene =
     H\<lparr>reaction_at :=
         (reaction_at H)(rxn :=
            (reaction_at H rxn)\<lparr>r_genes := removeAll gene (r_genes (reaction_at H rxn))\<rparr>),
       gene_at :=
         (gene_at H)(gene :=
            (gene_at H gene)\<lparr>g_reaction := g_reaction (gene_at H gene) - {rxn}\<rparr>)\<rparr>"

definition associate_gene :: "object_model \<Rightarrow> nat \<Rightarrow> nat \<Rightarrow> object_model" where
  "associate_gene H rxn gene =
     H\<lparr>reaction_at :=
         (reaction_at H)(rxn :=
            (reaction_at H rxn)\<lparr>r_genes := List.insert gene (r_genes (reaction_at H rxn))\<rparr>),
       gene_at :=
         (gene_at H)(gene :=
            (gene_at H gene)\<lparr>g_reaction := insert rxn (g_reaction (gene_at H gene)),
                              g_model := r_model (reaction_at H rxn)\<rparr>)\<rparr>"

text \<open>
  The body of the loop \<^verbatim>\<open>for gene in list(rxn._genes)\<close>: a gene whose identifier is not
  in the model is appended to the gene registry and points to the model; otherwise,
  unless the gene is the model's own object, the reaction takes the model's gene of
  that identifier in its place.
\<close>

definition link_gene :: "object_model \<Rightarrow> nat \<Rightarrow> nat \<Rightarrow> py_error + object_model" where
  "link_gene H rxn gene =
     (if g_id (gene_at H gene) \<notin> set (gene_ids H) then
        Inr (H\<lparr>registered_genes := registered_genes H @ [gene],
               gene_at := (gene_at H)(gene := (gene_at H gene)\<lparr>g_model := True\<rparr>)\<rparr>)
      else
        bind_err (get_by_id (\<lambda>a. g_id (gene_at H a)) (registered_genes H)
                    (g_id (gene_at H gene))) (\<lambda>model_gene.
        if model_gene \<noteq> gene
        then Inr (associate_gene (dissociate_gene H rxn gene) rxn model_gene)
        else Inr H))"

fun link_genes :: "object_model \<Rightarrow> nat \<Rightarrow> nat list \<Rightarrow> py_error + object_model" where
  "link_genes H rxn [] = Inr H"
| "link_genes H rxn (gene # rest) =
     bind_err (link_gene H rxn gene) (\<lambda>H1. link_genes H1 rxn rest)"

text \<open>
  The loop \<^verbatim>\<open>for rxn in reaction_list\<close>: the reaction points to the model, then its
  metabolites are linked, in the order of the keys of its dictionary when the loop
  starts, then its genes, in the order of its set of genes when that loop starts.
\<close>

fun add_reaction_loop :: "object_model \<Rightarrow> nat list \<Rightarrow> py_error + object_model" where
  "add_reaction_loop H [] = Inr H"
| "add_reaction_loop H (rxn # rest) =
     (let H1 = H\<lparr>reaction_at := (reaction_at H)(rxn := (reaction_at H rxn)\<lparr>r_model := True\<rparr>)\<rparr>
      in bind_err (link_metabolites H1 rxn (map fst (r_metabolites (reaction_at H1 rxn))))
           (\<lambda>H2.
         bind_err (link_genes H2 rxn (r_genes (reaction_at H2 rxn))) (\<lambda>H3.
         add_reaction_loop H3 rest)))"

text \<open>
  What \<^verbatim>\<open>update_S\<close> reads of the model: the identifiers of the registered reactions
  and metabolites, in registry order, the coefficient dictionary of each reaction,
  keyed by the identifiers of its metabolite objects, and the attributes \<^verbatim>\<open>_S\<close>,
  \<^verbatim>\<open>_matrix_type\<close> and \<^verbatim>\<open>_dtype\<close>.  The other fields of the records are left empty.
\<close>

definition reaction_record :: "object_model \<Rightarrow> nat \<Rightarrow> reaction" where
  "reaction_record H rxn =
     \<lparr>rid = r_id (reaction_at H rxn),
      rmetabolites = map (\<lambda>(metab, coefficient). (o_id (metabolite_at H metab), coefficient))
                       (r_metabolites (reaction_at H rxn)),
      reversible = True, exchange = False, external_metabolite = [], sym_kf = [],
      sym_kr = [], sym_Keq = [], Keq = None, ssflux = None,
      in_model = r_model (reaction_at H rxn)\<rparr>"

definition metabolite_record :: "object_model \<Rightarrow> nat \<Rightarrow> metabolite" where
  "metabolite_record H metab =
     \<lparr>mid = o_id (metabolite_at H metab), initial_condition = o_ic (metabolite_at H metab),
      m_reaction = []\<rparr>"

definition as_massmodel :: "object_model \<Rightarrow> massmodel" where
  "as_massmodel H =
     \<lparr>reactions = map (reaction_record H) (registered_reactions H),
      metabolites = map (metabolite_record H) (registered_metabolites H),
      initial_conditions = Map.empty, rtype = 1, custom_rates = [], custom_parameters = [],
      fixed_concentrations = Map.empty, S_cache = stored_S H,
      matrix_type_attr = stored_matrix_type H, dtype_attr = stored_dtype H\<rparr>"

text \<open>
  \<^verbatim>\<open>add_reactions\<close>: \<^verbatim>\<open>DictList(reaction_list)\<close> raises ValueError for a repeated
  identifier, the reactions whose identifier is already in the model are skipped, and
  the others are processed and appended to the registry.  With the argument
  \<^verbatim>\<open>update_stoichiometry\<close> (here \<open>update_matrix\<close>) the method then calls
  \<^verbatim>\<open>self.update_S(reaction_list=reaction_list, update_model=True)\<close>, which stores the
  matrix, the matrix type and the numeric type in the model.  \<open>register_reactions\<close> is
  the method from the loop over the new reactions to \<^verbatim>\<open>self.reactions += reaction_list\<close>;
  the model it returns is the one that is left when the call of \<^verbatim>\<open>update_S\<close> raises.  The
  undo log of an active context is not modelled: it records closures and does not change
  the state.
\<close>

definition new_reactions :: "object_model \<Rightarrow> nat list \<Rightarrow> nat list" where
  "new_reactions H rl = filter (\<lambda>rxn. r_id (reaction_at H rxn) \<notin> set (reaction_ids H)) rl"

definition register_reactions :: "object_model \<Rightarrow> nat list \<Rightarrow> py_error + object_model" where
  "register_reactions H rl =
     bind_err (add_reaction_loop H (new_reactions H rl)) (\<lambda>H1.
     Inr (H1\<lparr>registered_reactions := registered_reactions H1 @ new_reactions H rl\<rparr>))"

definition add_reactions :: "object_model \<Rightarrow> nat list \<Rightarrow> bool \<Rightarrow> py_error + object_model" where
  "add_reactions H rl update_matrix =
     (if \<not> distinct (map (\<lambda>a. r_id (reaction_at H a)) rl) then Inl ValueError
      else if length rl = 0 then Inr H
      else
        bind_err (register_reactions H rl) (\<lambda>H2.
        if update_matrix
        then bind_err (update_S (as_massmodel H2)
                         (Some (map (reaction_record H2) (new_reactions H rl)))
                         None None True) (\<lambda>(s_matrix, model).
             Inr (H2\<lparr>stored_S := S_cache model,
                     stored_matrix_type := matrix_type_attr model,
                     stored_dtype := dtype_attr model\<rparr>))
        else Inr H2))"

text \<open>
  A metabolite object is linked to a reaction in a model when it is an object of the
  metabolite registry and the reaction is among its back-references; a reaction is
  linked when every key of its dictionary is.  \<open>key_ids\<close> are the identifiers of the
  keys of a reaction's dictionary, \<open>entries_by_id\<close> its items with each key replaced by
  its identifier.  One model extends another when the registry and
  the back-references have only grown, identifiers and stored initial conditions of
  the objects are unchanged, the initial conditions of the metabolites registered
  before are unchanged, and every metabolite registered since then that stores an
  initial condition has it in the model.
\<close>

definition linked_metabolite :: "object_model \<Rightarrow> nat \<Rightarrow> nat \<Rightarrow> bool" where
  "linked_metabolite H rxn metab \<longleftrightarrow>
     metab \<in> set (registered_metabolites H) \<and> rxn \<in> o_reaction (metabolite_at H metab)"

definition linked_reaction :: "object_model \<Rightarrow> nat \<Rightarrow> bool" where
  "linked_reaction H rxn \<longleftrightarrow>
     (\<forall>kv \<in> set (r_metabolites (reaction_at H rxn)). linked_metabolite H rxn (fst kv))"

definition key_ids :: "object_model \<Rightarrow> nat \<Rightarrow> string set" where
  "key_ids H rxn =
     (\<lambda>kv. o_id (metabolite_at H (fst kv))) ` set (r_metabolites (reaction_at H rxn))"

definition entries_by_id :: "object_model \<Rightarrow> nat \<Rightarrow> (string \<times> int) set" where
  "entries_by_id H rxn =
     (\<lambda>kv. (o_id (metabolite_at H (fst kv)), snd kv)) ` set (r_metabolites (reaction_at H rxn))"

definition model_extends :: "object_model \<Rightarrow> object_model \<Rightarrow> bool" where
  "model_extends H H' \<longleftrightarrow>
     set (registered_metabolites H) \<subseteq> set (registered_metabolites H') \<and>
     (\<forall>m. o_reaction (metabolite_at H m) \<subseteq> o_reaction (metabolite_at H' m)) \<and>
     (\<forall>m. o_id (metabolite_at H' m) = o_id (metabolite_at H m)) \<and>
     (\<forall>m. o_ic (metabolite_at H' m) = o_ic (metabolite_at H m)) \<and>
     (\<forall>m \<in> set (registered_metabolites H). ic_map H' m = ic_map H m) \<and>
     (\<forall>m \<in> set (registered_metabolites H') - set (registered_metabolites H).
        \<forall>v. o_ic (metabolite_at H m) = Some v \<longrightarrow> ic_map H' m = Some v) \<and>
     (distinct (metabolite_ids H) \<longrightarrow> distinct (metabolite_ids H'))"

section \<open>Concrete models\<close>

text \<open>
  A small network used to run the definitions: metabolites \<open>A\<close> and \<open>B\<close>, the reversible
  reaction \<open>v1: A <=> B\<close> and the irreversible reaction \<open>v2: 2 B --> A\<close>.
\<close>

definition example_reaction :: "string \<Rightarrow> (string \<times> int) list \<Rightarrow> bool \<Rightarrow> reaction" where
  "example_reaction name coefficients is_reversible =
     \<lparr>rid = name, rmetabolites = coefficients, reversible = is_reversible, exchange = False,
      external_metabolite = name @ ''_e'', sym_kf = ''kf_'' @ name, sym_kr = ''kr_'' @ name,
      sym_Keq = ''Keq_'' @ name, Keq = Some 1, ssflux = Some 0, in_model = True\<rparr>"

definition v1 :: reaction where
  "v1 = example_reaction ''v1'' [(''A'', -1), (''B'', 1)] True"

definition v2 :: reaction where
  "v2 = example_reaction ''v2'' [(''B'', -2), (''A'', 1)] False"

definition metabolite_A :: metabolite where
  "metabolite_A = \<lparr>mid = ''A'', initial_condition = Some 1, m_reaction = [v1, v2]\<rparr>"

definition metabolite_B :: metabolite where
  "metabolite_B = \<lparr>mid = ''B'', initial_condition = Some 2, m_reaction = [v1, v2]\<rparr>"

definition example_model :: massmodel where
  "example_model =
     \<lparr>reactions = [v1, v2], metabolites = [metabolite_A, metabolite_B],
      initial_conditions = [''A'' \<mapsto> 1, ''B'' \<mapsto> 2], rtype = 1, custom_rates = [],
      custom_parameters = [], fixed_concentrations = Map.empty,
      S_cache = None, matrix_type_attr = Some Dense, dtype_attr = Some Float64\<rparr>"

text \<open>
  The same model while its cache still holds the matrix built before \<open>v2\<close> was appended
  to the reaction registry.
\<close>

definition example_model_stale :: massmodel where
  "example_model_stale =
     example_model\<lparr>S_cache := Some \<lparr>dtype_of = Float64, storage_of = NdArray [[-1], [1]]\<rparr>\<rparr>"

text \<open>An assignment with \<open>kf = 2\<close>, \<open>kr = 1\<close> and \<open>Keq = kf/kr = 2\<close> for \<open>v1\<close>, \<open>A = 1\<close>, \<open>B = 0\<close>.\<close>

definition example_assignment :: assignment where
  "example_assignment =
     \<lparr>sym_val = (\<lambda>s. if s = (''kf_v1'', False) then 2 else if s = (''kr_v1'', False) then 1
                      else if s = (''Keq_v1'', False) then 2 else 0),
      conc_val = (\<lambda>m. if m = ''A'' then 1 else 0)\<rparr>"

text \<open>
  The model with the custom rate \<open>kf_v1*k1*A(t)\<close> registered for \<open>v1\<close> and the custom
  parameter \<open>k1 = 2\<close>.
\<close>

definition example_custom_rate :: expr where
  "example_custom_rate =
     Mul (Mul (Symbol ''kf_v1'' False) (Symbol ''k1'' False)) (MetabFun ''A'')"

definition example_model_custom :: massmodel where
  "example_model_custom =
     example_model\<lparr>custom_rates := [(''v1'', example_custom_rate)],
                   custom_parameters := [(''k1'', 2)]\<rparr>"

text \<open>
  Two custom rates that share the parameter \<open>k2\<close>: \<open>k1*k2\<close> for \<open>v1\<close> and \<open>k2*k3\<close> for \<open>v2\<close>.
\<close>

definition example_model_shared :: massmodel where
  "example_model_shared =
     example_model\<lparr>custom_rates :=
                     [(''v1'', Mul (Symbol ''k1'' False) (Symbol ''k2'' False)),
                      (''v2'', Mul (Symbol ''k2'' False) (Symbol ''k3'' False))],
                   custom_parameters := [(''k1'', 1), (''k2'', 2), (''k3'', 3)]\<rparr>"



text \<open>
  Inputs of the solver.  No metabolite of the examples is hydrogen or water.  The first
  model is the network above without stored initial conditions; concentrations for \<open>A\<close>
  and \<open>B\<close> and the flux \<open>0\<close> for \<open>v1\<close> and \<open>v2\<close> are supplied to the call.
\<close>

definition example_elements :: "string \<Rightarrow> (string \<times> int) list" where
  "example_elements metab = []"

definition example_model_unstored :: massmodel where
  "example_model_unstored = example_model\<lparr>initial_conditions := Map.empty\<rparr>"

definition example_concentrations :: "string \<Rightarrow> real option" where
  "example_concentrations = [''A'' \<mapsto> 1, ''B'' \<mapsto> 1]"

definition example_zero_fluxes :: "string \<Rightarrow> real option" where
  "example_zero_fluxes = [''v1'' \<mapsto> 0, ''v2'' \<mapsto> 0]"

text \<open>
  The second model holds the single reaction \<open>vKeq: A <=> B\<close>, whose identifier contains
  \<open>Keq\<close>, with the stored flux \<open>0\<close>, and stores the initial conditions of \<open>A\<close> and \<open>B\<close>.
\<close>

definition v_Keq :: reaction where
  "v_Keq = example_reaction ''vKeq'' [(''A'', -1), (''B'', 1)] True"

definition example_model_Keq :: massmodel where
  "example_model_Keq =
     \<lparr>reactions = [v_Keq],
      metabolites = [\<lparr>mid = ''A'', initial_condition = Some 1, m_reaction = [v_Keq]\<rparr>,
                     \<lparr>mid = ''B'', initial_condition = Some 2, m_reaction = [v_Keq]\<rparr>],
      initial_conditions = [''A'' \<mapsto> 1, ''B'' \<mapsto> 2], rtype = 1, custom_rates = [],
      custom_parameters = [], fixed_concentrations = Map.empty,
      S_cache = None, matrix_type_attr = Some Dense, dtype_attr = Some Float64\<rparr>"

text \<open>
  The third model holds \<open>v1: A <=> B\<close> and a reaction \<open>v3\<close> without metabolites, for which
  the custom rate \<open>kf_v1**2\<close> is registered; the supplied fluxes are \<open>0\<close> for \<open>v1\<close> and \<open>4\<close>
  for \<open>v3\<close>.  The equation \<open>4 = kf_v1**2\<close> of \<open>v3\<close> has the real roots \<open>2\<close> and \<open>-2\<close>, which
  the solver \<open>example_solveset\<close> returns for it.  With the flux \<open>-4\<close> for \<open>v3\<close> the equation
  \<open>-4 = kf_v1**2\<close> has no real root, and the solver returns the empty set.
\<close>

definition v3 :: reaction where
  "v3 = example_reaction ''v3'' [] False"

definition example_model_two_roots :: massmodel where
  "example_model_two_roots =
     \<lparr>reactions = [v1, v3],
      metabolites = [\<lparr>mid = ''A'', initial_condition = Some 1, m_reaction = [v1]\<rparr>,
                     \<lparr>mid = ''B'', initial_condition = Some 1, m_reaction = [v1]\<rparr>],
      initial_conditions = [''A'' \<mapsto> 1, ''B'' \<mapsto> 1], rtype = 1,
      custom_rates = [(''v3'', Pow (Symbol ''kf_v1'' False) 2)],
      custom_parameters = [], fixed_concentrations = Map.empty,
      S_cache = None, matrix_type_attr = Some Dense, dtype_attr = Some Float64\<rparr>"

definition example_fluxes :: "string \<Rightarrow> real option" where
  "example_fluxes = [''v1'' \<mapsto> 0, ''v3'' \<mapsto> 4]"

definition example_negative_fluxes :: "string \<Rightarrow> real option" where
  "example_negative_fluxes = [''v1'' \<mapsto> 0, ''v3'' \<mapsto> - 4]"

definition example_solveset ::
  "real \<Rightarrow> expr \<Rightarrow> (symbol \<times> real option) list \<Rightarrow> symbol \<Rightarrow> py_error + real list" where
  "example_solveset flux rate vals p =
     (if flux = 4 \<and> rate = Pow (Symbol ''kf_v1'' False) 2 \<and> p = (''kf_v1'', False)
      then Inr [2, - 2] else Inr [])"

text \<open>
  A store for \<^verbatim>\<open>add_reactions\<close>: the metabolite objects \<open>0\<close> (\<open>A\<close>), \<open>1\<close> (\<open>B\<close>) and \<open>2\<close>
  (a second object with the identifier \<open>A\<close>), the gene objects \<open>0\<close> and \<open>1\<close> (two
  objects with the identifier \<open>g1\<close>), the reaction objects \<open>0\<close> (\<open>v1: A <=> B\<close>, on the
  metabolite objects \<open>0\<close> and \<open>1\<close>, with the gene object \<open>0\<close>) and \<open>1\<close>
  (\<open>v2: 2 B --> A\<close>, on the metabolite objects \<open>1\<close> and \<open>2\<close>, with the gene object \<open>1\<close>),
  and an empty model.
\<close>

definition example_objects :: object_model where
  "example_objects =
     \<lparr>metabolite_at =
        (\<lambda>a. if a = 0 then \<lparr>o_id = ''A'', o_ic = Some 1, o_reaction = {}, o_model = False\<rparr>
             else if a = 1 then \<lparr>o_id = ''B'', o_ic = Some 2, o_reaction = {}, o_model = False\<rparr>
             else \<lparr>o_id = ''A'', o_ic = Some 5, o_reaction = {}, o_model = False\<rparr>),
      reaction_at =
        (\<lambda>r. if r = 0
             then \<lparr>r_id = ''v1'', r_metabolites = [(0, - 1), (1, 1)], r_genes = [0],
                   r_model = False\<rparr>
             else \<lparr>r_id = ''v2'', r_metabolites = [(1, - 2), (2, 1)], r_genes = [1],
                   r_model = False\<rparr>),
      gene_at =
        (\<lambda>g. if g = 0 then \<lparr>g_id = ''g1'', g_reaction = {0}, g_model = False\<rparr>
             else \<lparr>g_id = ''g1'', g_reaction = {1}, g_model = False\<rparr>),
      registered_metabolites = [], registered_reactions = [], registered_genes = [],
      ic_map = Map.empty, stored_S = None, stored_matrix_type = None, stored_dtype = None\<rparr>"

section \<open>Conversion to the numeric type of a matrix\<close>

declare float_ulp.simps [simp del]

lemma float_ulp_small: "a < 2 ^ 53 \<Longrightarrow> float_ulp a = 1"
  by (subst float_ulp.simps) simp

lemma float_ulp_at_limit: "float_ulp 9007199254740992 = 2"
  by (subst float_ulp.simps) (simp add: float_ulp_small)

lemma float64_of_int_exact:
  assumes "\<bar>c\<bar> \<le> 2 ^ 53"
  shows "float64_of_int c = Inr c"
proof (cases "\<bar>c\<bar> = 2 ^ 53")
  case True
  then have "c = 9007199254740992 \<or> c = - 9007199254740992" by simp linarith
  then show ?thesis
    by (auto simp: float64_of_int_def float_ulp_at_limit Let_def)
next
  case False
  with assms have "\<bar>c\<bar> < 2 ^ 53" by linarith
  then have lt: "nat \<bar>c\<bar> < 2 ^ 53" by (simp add: nat_less_iff)
  have big: "nat \<bar>c\<bar> < 2 ^ 1024"
    using lt less_trans[of "nat \<bar>c\<bar>" "2 ^ 53" "2 ^ 1024"] by simp
  have u: "float_ulp (nat \<bar>c\<bar>) = 1" using lt by (rule float_ulp_small)
  have nb: "\<not> 2 ^ 1024 \<le> nat \<bar>c\<bar>" using big by (simp only: not_le)
  have v: "(if c < 0 then - int (nat \<bar>c\<bar>) else int (nat \<bar>c\<bar>)) = c" by simp
  show ?thesis
    unfolding float64_of_int_def Let_def u
    by (simp only: div_by_1 mod_by_1 mult_1_right mult_zero_right less_numeral_extra
          zero_neq_one simp_thms if_False nb v)
qed



section \<open>The full build of the stoichiometric matrix\<close>



























text \<open>
  Without metabolites or without reactions the build returns \<^verbatim>\<open>None\<close> and stores no
  matrix.
\<close>

lemma create_stoichiometric_matrix_empty:
  assumes "metabolites model = [] \<or> reactions model = []"
  shows "\<exists>model1. create_stoichiometric_matrix model mt dtype upd = Inr (None, model1) \<and>
           S_cache model1 = S_cache model"
  using assms
  by (auto simp: create_stoichiometric_matrix_def setup_matrix_constructor_def
           split: option.splits)

lemmas example_defs =
  example_model_def example_model_stale_def v1_def v2_def metabolite_A_def metabolite_B_def
  example_reaction_def






section \<open>The incremental update of the stoichiometric matrix\<close>

text \<open>
  With a dense cache and the dense type requested, the incremental path returns the
  cached array itself: the resized and updated dictionary-of-keys matrix is never
  converted.
\<close>

lemma update_stoichiometry_returns_cache:
  assumes "S_cache model = Some cached" and "storage_of cached = NdArray rows"
    and "update_stoichiometry model reaction_list (Some Dense) = Inr S"
  shows "S = cached"
  using assms
  by (auto simp: update_stoichiometry_def convert_S_def to_dense_def bind_err_def Let_def
           split: sum.splits)

text \<open>
  Claim C2 (the code departs from it).  The model holds \<open>v1\<close> and \<open>v2\<close>, its cache the
  matrix built when \<open>v1\<close> was the only reaction.  \<open>update_S\<close> with the appended reaction
  \<open>v2\<close> returns the cached 2x1 matrix; the full rebuild returns the 2x2 matrix.
\<close>

theorem update_S_incremental_returns_stale_matrix:
  "update_S example_model_stale (Some [v2]) None None False =
     Inr (Some \<lparr>dtype_of = Float64, storage_of = NdArray [[-1], [1]]\<rparr>, example_model_stale) \<and>
   update_S example_model_stale None None None False =
     Inr (Some \<lparr>dtype_of = Float64, storage_of = NdArray [[-1, 1], [1, -2]]\<rparr>,
          example_model_stale)"
proof
  show "update_S example_model_stale (Some [v2]) None None False =
     Inr (Some \<lparr>dtype_of = Float64, storage_of = NdArray [[-1], [1]]\<rparr>, example_model_stale)"
    by (simp add: example_defs update_S_def update_stoichiometry_def convert_S_def
        to_dense_def to_dok_def bind_err_def m_ind_def r_ind_def dok_resize_def
        dok_update_def shape_def entry_def)
  show "update_S example_model_stale None None None False =
     Inr (Some \<lparr>dtype_of = Float64, storage_of = NdArray [[-1, 1], [1, -2]]\<rparr>,
          example_model_stale)"
    by (simp add: example_defs update_S_def create_stoichiometric_matrix_def
        setup_matrix_constructor_def matrix_constructor_def np_zeros_def bind_err_def
        m_ind_def r_ind_def mat_set_def dtype_convert_def float64_of_int_exact)
qed

section \<open>Consistency of the rate-law templates\<close>

lemma eval_mass_action:
  "eval_expr \<rho> (mass_action r start side) = eval_expr \<rho> start * eval_expr \<rho> (mass_action r (Num 1) side)"
proof (induction side arbitrary: start)
  case Nil
  then show ?case by simp
next
  case (Cons m ms)
  define factor where
    "factor = (if \<bar>get_coefficient r m\<bar> = 1 then MetabFun m
               else Pow (MetabFun m) \<bar>get_coefficient r m\<bar>)"
  have step: "mass_action r e (m # ms) = mass_action r (Mul e factor) ms" for e
    by (simp add: factor_def Let_def)
  have "eval_expr \<rho> (mass_action r start (m # ms)) =
          eval_expr \<rho> (Mul start factor) * eval_expr \<rho> (mass_action r (Num 1) ms)"
    unfolding step by (rule Cons.IH)
  moreover have "eval_expr \<rho> (mass_action r (Num 1) (m # ms)) =
          eval_expr \<rho> (Mul (Num 1) factor) * eval_expr \<rho> (mass_action r (Num 1) ms)"
    unfolding step by (rule Cons.IH)
  ultimately show ?case by simp
qed

lemma eval_rate_side:
  "eval_expr \<rho> (rate_side r start side) = eval_expr \<rho> start * eval_expr \<rho> (rate_side r (Num 1) side)"
  using eval_mass_action[of \<rho> r start side] by (simp add: rate_side_def)

text \<open>
  Claim C6, as the spec states it, fails: for \<open>v1: A <=> B\<close> with \<open>kf = 2\<close>, \<open>kr = 1\<close>,
  \<open>Keq = kf/kr = 2\<close>, \<open>A = 1\<close> and \<open>B = 0\<close> both rate expressions have the value \<open>2\<close>,
  so Type 2 is not Type 1 times \<open>kf\<close>.
\<close>

theorem type_2_is_not_type_1_times_kf:
  "reversible v1 \<and>
   Keq_val example_assignment v1 = kf_val example_assignment v1 / kr_val example_assignment v1 \<and>
   \<not> type_2_is_type_1_times_kf example_assignment v1"
  by (simp add: example_defs example_assignment_def type_2_is_type_1_times_kf_def kf_val_def
      kr_val_def Keq_val_def generate_rate_expr_type_1_def generate_rate_expr_type_2_def
      rate_side_def reactants_def products_def get_coefficient_def)

text \<open>
  Claim C6, amended.  For every reversible reaction and every assignment with
  \<open>Keq = kf/kr\<close>, \<open>kf \<noteq> 0\<close> and \<open>kr \<noteq> 0\<close>, the Type 2 rate expression has the same value
  as the Type 1 rate expression itself (with no further factor \<open>kf\<close>).
\<close>

theorem type_2_equals_type_1:
  assumes "reversible r" and "Keq_val \<rho> r = kf_val \<rho> r / kr_val \<rho> r"
    and "kf_val \<rho> r \<noteq> 0" and "kr_val \<rho> r \<noteq> 0"
  shows "eval_expr \<rho> (generate_rate_expr_type_2 r) = eval_expr \<rho> (generate_rate_expr_type_1 r)"
proof -
  let ?R = "eval_expr \<rho> (rate_side r (Num 1) (reactants r))"
  let ?P = "eval_expr \<rho> (rate_side r (Num 1) (products r))"
  have t1: "eval_expr \<rho> (generate_rate_expr_type_1 r) =
              kf_val \<rho> r * (?R - inverse (Keq_val \<rho> r) * ?P)"
    using assms(1) eval_rate_side[of \<rho> r "Pow (Symbol (sym_Keq r) False) (- 1)" "products r"]
    by (simp add: generate_rate_expr_type_1_def Let_def kf_val_def Keq_val_def power_int_minus)
  have t2: "eval_expr \<rho> (generate_rate_expr_type_2 r) = kf_val \<rho> r * ?R - kr_val \<rho> r * ?P"
    using assms(1) eval_rate_side[of \<rho> r "Symbol (sym_kf r) False" "reactants r"]
      eval_rate_side[of \<rho> r "Symbol (sym_kr r) False" "products r"]
    by (simp add: generate_rate_expr_type_2_def Let_def kf_val_def kr_val_def)
  have inv: "inverse (Keq_val \<rho> r) = kr_val \<rho> r / kf_val \<rho> r"
    using assms(2) by (simp add: field_simps)
  show ?thesis
    unfolding t1 t2 inv using assms(3) by (simp add: field_simps)
qed

theorem type_2_equals_type_1_witness:
  "reversible v1 \<and>
   Keq_val example_assignment v1 = kf_val example_assignment v1 / kr_val example_assignment v1 \<and>
   kf_val example_assignment v1 \<noteq> 0 \<and> kr_val example_assignment v1 \<noteq> 0 \<and>
   eval_expr example_assignment (generate_rate_expr_type_2 v1) =
     eval_expr example_assignment (generate_rate_expr_type_1 v1)"
proof -
  have h1: "reversible v1" by (simp add: example_defs)
  have h2: "Keq_val example_assignment v1 =
              kf_val example_assignment v1 / kr_val example_assignment v1"
    and h3: "kf_val example_assignment v1 \<noteq> 0" and h4: "kr_val example_assignment v1 \<noteq> 0"
    by (simp_all add: example_defs example_assignment_def kf_val_def kr_val_def Keq_val_def)
  from type_2_equals_type_1[OF h1 h2 h3 h4] h1 h2 h3 h4 show ?thesis by blast
qed

section \<open>The ODE assembler and the rate map\<close>

text \<open>
  Without a custom rate among the reactions of a metabolite, the assembled ODE is the
  sum of the signed rate laws; without any reaction the result is \<^verbatim>\<open>None\<close>; a
  metabolite that is a key of \<^verbatim>\<open>fixed_concentrations\<close> has no entry in \<open>odes\<close>.
\<close>

lemma generate_ode_loop_sum:
  assumes "\<forall>rxn \<in> set rs. \<not> (in_model rxn \<and> rid rxn \<in> set (map fst (custom_rates model)))"
  shows "\<exists>e. generate_ode_loop re model metab rs ode = Some e \<and>
           (\<forall>\<rho>. eval_expr \<rho> e =
              eval_expr \<rho> ode + (\<Sum>rxn\<leftarrow>rs. ode_sign metab rxn * eval_expr \<rho> (re rxn)))"
  using assms
proof (induction rs arbitrary: ode)
  case Nil
  then show ?case by simp
next
  case (Cons rxn rs)
  let ?signed = "if mid metab \<in> set (reactants rxn) then Mul (Num (- 1)) (re rxn) else re rxn"
  have step: "generate_ode_loop re model metab (rxn # rs) ode =
                generate_ode_loop re model metab rs (Add ode ?signed)"
    using Cons.prems by (auto simp: Let_def)
  from Cons.prems have "\<forall>r \<in> set rs. \<not> (in_model r \<and> rid r \<in> set (map fst (custom_rates model)))"
    by simp
  from Cons.IH[OF this, of "Add ode ?signed"]
  obtain e where e: "generate_ode_loop re model metab rs (Add ode ?signed) = Some e"
    "\<And>\<rho>. eval_expr \<rho> e =
              eval_expr \<rho> (Add ode ?signed) + (\<Sum>r\<leftarrow>rs. ode_sign metab r * eval_expr \<rho> (re r))"
    by blast
  have "eval_expr \<rho> e =
          eval_expr \<rho> ode + (\<Sum>r\<leftarrow>rxn # rs. ode_sign metab r * eval_expr \<rho> (re r))" for \<rho>
    using e(2)[of \<rho>] by (simp add: ode_sign_def)
  then show ?case using step e(1) by simp
qed

lemma generate_ode_sum:
  assumes "m_reaction metab \<noteq> []"
    and "\<forall>rxn \<in> set (m_reaction metab).
           \<not> (in_model rxn \<and> rid rxn \<in> set (map fst (custom_rates model)))"
  shows "\<exists>e. generate_ode re model metab = Some e \<and>
           (\<forall>\<rho>. eval_expr \<rho> e =
              (\<Sum>rxn\<leftarrow>m_reaction metab. ode_sign metab rxn * eval_expr \<rho> (re rxn)))"
  using generate_ode_loop_sum[OF assms(2), of re metab "Num 0"] assms(1)
  by (simp add: generate_ode_def)

lemma generate_ode_loop_custom:
  assumes "rxn \<in> set rs" and "in_model rxn" and "rid rxn \<in> set (map fst (custom_rates model))"
  shows "generate_ode_loop re model metab rs ode = None"
  using assms by (induction rs arbitrary: ode) (auto simp: Let_def)

lemma generate_ode_none_without_reactions:
  "m_reaction metab = [] \<Longrightarrow> generate_ode re model metab = None"
  by (simp add: generate_ode_def)

lemma odes_excludes_fixed:
  "fixed_concentrations model (MetabKey (mid metab)) \<noteq> None \<Longrightarrow>
   distinct (map mid (metabolites model)) \<Longrightarrow> metab \<in> set (metabolites model) \<Longrightarrow>
   map_of (odes re model) (mid metab) = None"
  by (auto simp: odes_def map_of_eq_None_iff)

text \<open>
  A metabolite that is no key of \<^verbatim>\<open>fixed_concentrations\<close> as an object has an entry in
  \<open>odes\<close>, also when its identifier is a key as a string.
\<close>

lemma odes_keeps_unless_object_is_fixed:
  "fixed_concentrations model (MetabKey (mid metab)) = None \<Longrightarrow>
   metab \<in> set (metabolites model) \<Longrightarrow>
   (mid metab, generate_ode re model metab) \<in> set (odes re model)"
  by (auto simp: odes_def)

text \<open>
  Claim C3 (the code departs from it).  With the custom rate \<open>kf_v1*k1*A(t)\<close> registered
  for \<open>v1\<close>, the rate map holds the custom rate for \<open>v1\<close>, but the ODE assembler returns
  \<^verbatim>\<open>None\<close> for the metabolite \<open>A\<close> of \<open>v1\<close> instead of a sum that uses the custom rate.
\<close>

theorem generate_ode_ignores_custom_rate:
  "generate_ode generate_rate_expr_type_1 example_model_custom metabolite_A = None \<and>
   bind_err (rates (\<lambda>rxn t. Inr (Some (generate_rate_expr_type_1 rxn))) example_model_custom)
     (\<lambda>rate_dict. dict_get rate_dict ''v1'') = Inr (Some example_custom_rate)"
  by (simp add: example_defs example_model_custom_def generate_ode_def rates_def bind_err_def
      dict_update_def dict_get_def)

text \<open>
  Claim C5 (the code departs from it, by the defect of C3).  The metabolite \<open>B\<close> has no
  fixed concentration and takes part in \<open>v1\<close> and \<open>v2\<close>; with a custom rate registered
  for \<open>v1\<close> its assembled ODE is \<^verbatim>\<open>None\<close>, not the sum of the signed rate laws.
\<close>

theorem generate_ode_none_for_participating_metabolite:
  "fixed_concentrations example_model_custom (MetabKey (mid metabolite_B)) = None \<and>
   fixed_concentrations example_model_custom (StrKey (mid metabolite_B)) = None \<and>
   m_reaction metabolite_B = [v1, v2] \<and>
   generate_ode generate_rate_expr_type_1 example_model_custom metabolite_B = None"
  by (simp add: example_defs example_model_custom_def generate_ode_def)

section \<open>Registering and removing custom rates\<close>

text \<open>
  The module \<^verbatim>\<open>expressions\<close> has no attribute \<^verbatim>\<open>create_custom_rate\<close>, so no call of
  \<^verbatim>\<open>add_custom_rate\<close> returns.
\<close>

lemma add_custom_rate_raises:
  "add_custom_rate re_search create_custom_rate model reaction custom_rate supplied
     = Inl AttributeError"
  by (simp add: add_custom_rate_def expressions_getattr_def expressions_names_def bind_err_def
      Let_def)

text \<open>
  Claim C4 (the code departs from it).  Registering the rate \<open>kf_v1*k1*A(t)\<close> with the
  parameter \<open>k1 = 2\<close> for \<open>v1\<close> raises AttributeError; neither map is updated.
\<close>

theorem add_custom_rate_fails:
  "add_custom_rate re_search_literal (\<lambda>reaction custom_rate names. example_custom_rate)
     example_model v1 ''kf_v1*k1*A(t)'' (Some [(''k1'', 2)]) = Inl AttributeError"
  by (simp add: add_custom_rate_def expressions_getattr_def expressions_names_def bind_err_def
      Let_def)

text \<open>
  Removing \<open>v1\<close> from two custom rates that share \<open>k2\<close> deletes \<open>k1\<close> and keeps \<open>k2\<close> and
  \<open>k3\<close>.
\<close>

lemma remove_custom_rate_shared_parameter:
  "remove_custom_rate example_model_shared v1 =
     Inr (example_model\<lparr>custom_rates := [(''v2'', Mul (Symbol ''k2'' False) (Symbol ''k3'' False))],
                        custom_parameters := [(''k2'', 2), (''k3'', 3)]\<rparr>)"
  by (simp add: example_defs example_model_shared_def remove_custom_rate_def bind_err_def
      dict_del_def str_sym_def)

text \<open>
  Claim C9 (the code departs from it).  The custom rate \<open>kf_v1*k1*A(t)\<close> of \<open>v1\<close> uses the
  rate constant \<open>kf_v1\<close> of the reaction, which is no custom parameter; removing the
  rate raises KeyError at \<^verbatim>\<open>del self._custom_parameters['kf_v1']\<close>.
\<close>

theorem remove_custom_rate_raises_KeyError:
  "remove_custom_rate example_model_custom v1 = Inl KeyError"
  by (simp add: example_defs example_model_custom_def example_custom_rate_def
      remove_custom_rate_def bind_err_def dict_del_def str_sym_def)

section \<open>The steady-state parameter solver\<close>

lemma percs_loop_append:
  "percs_loop solveset model cl fluxes dflt upd (xs @ ys) st =
     bind_err (percs_loop solveset model cl fluxes dflt upd xs st)
       (percs_loop solveset model cl fluxes dflt upd ys)"
  by (induction xs arbitrary: st) (auto simp: bind_err_def split: sum.splits)

text \<open>
  A pass for a reaction with flux \<open>0\<close> whose known values have been collected and whose
  unknown is \<open>p\<close> stores \<open>at_equilibrium_default\<close> under \<open>p\<close>; the solver is not
  consulted.
\<close>

lemma percs_iteration_zero_flux:
  assumes "reaction_of_key model (fst item) = Inr rxn"
    and "fluxes (rid rxn) = Some 0"
    and "collect_values model cl rxn (atoms_Symbol (snd item)) ([], perc st)
           = Inr (vals, Some p)"
  shows "percs_iteration solveset model cl fluxes dflt upd item st =
           Inr (st\<lparr>percs_dict := dict_set (str_sym p) dflt (percs_dict st),
                   perc := Some p,
                   kf_assigned := (if upd then dict_set (rid rxn) dflt (kf_assigned st)
                                   else kf_assigned st)\<rparr>)"
  using assms
  by (simp add: percs_iteration_def bind_err_def map_get_def bound_perc_def set_pop_def Let_def)


text \<open>
  Once the checks for missing values have passed and the symbols are sorted,
  \<open>calc_PERCS\<close> is the loop over the stripped rates.
\<close>

lemma calc_PERCS_loop:
  assumes "missing_values missing model concs supplied_fluxes = ([], [])"
    and "sort_symbols generate re (model\<lparr>rtype := 1\<rparr>) = Inr (ode_dict, rate_dict, cl)"
    and "strip_time rate_dict = Inr items"
  shows "calc_PERCS solveset missing generate re model concs supplied_fluxes dflt upd =
           bind_err
             (percs_loop solveset (model\<lparr>rtype := 1\<rparr>) cl (flux_map model supplied_fluxes)
                dflt upd items \<lparr>percs_dict = [], perc = None, kf_assigned = []\<rparr>)
             (\<lambda>st. Inr (Some st))"
  using assms by (simp add: calc_PERCS_def bind_err_def)

subsection \<open>Runs of the solver\<close>

lemmas example_perc_defs =
  example_model_unstored_def example_model_Keq_def example_model_two_roots_def
  example_concentrations_def example_zero_fluxes_def example_fluxes_def
  example_negative_fluxes_def v_Keq_def v3_def example_elements_def

lemmas pipeline_defs =
  sort_symbols_def generate_rate_laws_def generate_rate_law_def ignore_h_and_h2o_def
  is_h_or_h2o_def odes_def generate_ode_def generate_rate_expr_type_1_def rate_side_def
  reactants_def products_def get_coefficient_def strip_time_def str_sym_def bind_err_def
  dict_update_def

lemma example_rids: "rid v1 = ''v1''" "rid v2 = ''v2''" "rid v3 = ''v3''" "rid v_Keq = ''vKeq''"
  by (simp_all add: v1_def v2_def v3_def v_Keq_def example_reaction_def)

lemma example_unstored_missing:
  "missing_values (\<lambda>b. []) example_model_unstored (Some example_concentrations)
     (Some example_zero_fluxes) = ([], [])"
  by (simp add: missing_values_def example_perc_defs example_defs)

lemma example_unstored_sorted:
  "sort_symbols (generate_rate_law example_elements) generate_rate_expr_type_1
     (example_model_unstored\<lparr>rtype := 1\<rparr>) =
   Inr ([(''A'', Some (Add (Add (Num 0)
                (Mul (Num (- 1))
                  (Mul (Symbol ''kf_v1'' False)
                    (Add (Mul (Num 1) (MetabFun ''A''))
                      (Mul (Num (- 1))
                        (Mul (Pow (Symbol ''Keq_v1'' False) (- 1)) (MetabFun ''B'')))))))
           (Mul (Symbol ''kf_v2'' False) (Mul (Num 1) (Pow (MetabFun ''B'') 2))))),
         (''B'', Some (Add (Add (Num 0)
                (Mul (Symbol ''kf_v1'' False)
                  (Add (Mul (Num 1) (MetabFun ''A''))
                    (Mul (Num (- 1))
                      (Mul (Pow (Symbol ''Keq_v1'' False) (- 1)) (MetabFun ''B''))))))
           (Mul (Num (- 1))
             (Mul (Symbol ''kf_v2'' False) (Mul (Num 1) (Pow (MetabFun ''B'') 2))))))],
        Some [(''v1'', Some (Mul (Symbol ''kf_v1'' False)
                 (Add (Mul (Num 1) (MetabFun ''A''))
                   (Mul (Num (- 1))
                     (Mul (Pow (Symbol ''Keq_v1'' False) (- 1)) (MetabFun ''B'')))))),
              (''v2'', Some (Mul (Symbol ''kf_v2'' False)
                 (Mul (Num 1) (Pow (MetabFun ''B'') 2))))],
        \<lparr>metab_funcs = [''B'', ''A''],
         rate_params = [(''kf_v2'', False), (''Keq_v1'', False), (''kf_v1'', False)],
         fixed_concs = [], custom_params = []\<rparr>)"
  by (simp add: example_perc_defs example_defs pipeline_defs)

lemma example_unstored_stripped:
  "strip_time
     (Some [(''v1'', Some (Mul (Symbol ''kf_v1'' False)
                 (Add (Mul (Num 1) (MetabFun ''A''))
                   (Mul (Num (- 1))
                     (Mul (Pow (Symbol ''Keq_v1'' False) (- 1)) (MetabFun ''B'')))))),
            (''v2'', Some (Mul (Symbol ''kf_v2'' False)
                 (Mul (Num 1) (Pow (MetabFun ''B'') 2))))]) =
   Inr [(''v1'', Mul (Symbol ''kf_v1'' False)
                 (Add (Mul (Num 1) (Symbol ''A'' False))
                   (Mul (Num (- 1))
                     (Mul (Pow (Symbol ''Keq_v1'' False) (- 1)) (Symbol ''B'' False))))),
        (''v2'', Mul (Symbol ''kf_v2'' False)
                 (Mul (Num 1) (Pow (Symbol ''B'' False) 2)))]"
  by (simp add: strip_time_def bind_err_def)

lemma example_unstored_raises:
  "calc_PERCS solveset (\<lambda>b. []) (generate_rate_law example_elements) generate_rate_expr_type_1
     example_model_unstored (Some example_concentrations) (Some example_zero_fluxes)
     dflt upd = Inl KeyError"
  unfolding calc_PERCS_loop[OF example_unstored_missing example_unstored_sorted
      example_unstored_stripped]
  by (simp add: example_perc_defs example_defs percs_iteration_def
      reaction_of_key_def bind_err_def str_sym_def map_get_def)

lemma example_Keq_missing:
  "missing_values (\<lambda>b. []) example_model_Keq None None = ([], [])"
  by (simp add: missing_values_def example_perc_defs example_reaction_def)

lemma example_Keq_sorted:
  "sort_symbols (generate_rate_law example_elements) generate_rate_expr_type_1
     (example_model_Keq\<lparr>rtype := 1\<rparr>) =
   Inr ([(''A'', Some (Add (Num 0)
                (Mul (Num (- 1))
                  (Mul (Symbol ''kf_vKeq'' False)
                    (Add (Mul (Num 1) (MetabFun ''A''))
                      (Mul (Num (- 1))
                        (Mul (Pow (Symbol ''Keq_vKeq'' False) (- 1)) (MetabFun ''B'')))))))),
         (''B'', Some (Add (Num 0)
                (Mul (Symbol ''kf_vKeq'' False)
                  (Add (Mul (Num 1) (MetabFun ''A''))
                    (Mul (Num (- 1))
                      (Mul (Pow (Symbol ''Keq_vKeq'' False) (- 1)) (MetabFun ''B'')))))))],
        Some [(''vKeq'', Some (Mul (Symbol ''kf_vKeq'' False)
                 (Add (Mul (Num 1) (MetabFun ''A''))
                   (Mul (Num (- 1))
                     (Mul (Pow (Symbol ''Keq_vKeq'' False) (- 1)) (MetabFun ''B''))))))],
        \<lparr>metab_funcs = [''B'', ''A''],
         rate_params = [(''Keq_vKeq'', False), (''kf_vKeq'', False)],
         fixed_concs = [], custom_params = []\<rparr>)"
  by (simp add: example_perc_defs example_reaction_def pipeline_defs)

lemma example_Keq_stripped:
  "strip_time
     (Some [(''vKeq'', Some (Mul (Symbol ''kf_vKeq'' False)
                 (Add (Mul (Num 1) (MetabFun ''A''))
                   (Mul (Num (- 1))
                     (Mul (Pow (Symbol ''Keq_vKeq'' False) (- 1)) (MetabFun ''B''))))))]) =
   Inr [(''vKeq'', Mul (Symbol ''kf_vKeq'' False)
                 (Add (Mul (Num 1) (Symbol ''A'' False))
                   (Mul (Num (- 1))
                     (Mul (Pow (Symbol ''Keq_vKeq'' False) (- 1)) (Symbol ''B'' False)))))]"
  by (simp add: strip_time_def bind_err_def)

lemma example_Keq_raises:
  "calc_PERCS solveset (\<lambda>b. []) (generate_rate_law example_elements) generate_rate_expr_type_1
     example_model_Keq None None dflt upd = Inl UnboundLocalError"
  unfolding calc_PERCS_loop[OF example_Keq_missing example_Keq_sorted example_Keq_stripped]
  by (simp add: example_perc_defs example_reaction_def percs_iteration_def
      reaction_of_key_def bind_err_def str_sym_def map_get_def flux_map_def bound_perc_def
      dict_get_def)

text \<open>
  Claim C7 (the code departs from it).  First call: the model stores no initial
  conditions; concentrations for \<open>A\<close> and \<open>B\<close> and the flux \<open>0\<close> for both reactions are
  supplied, and nothing is missing.  The loop reads the value of \<open>A\<close> from
  \<^verbatim>\<open>self.initial_conditions\<close>, not from the supplied concentrations, and the call raises
  KeyError before the flux is tested.  Second call: the reaction's identifier \<open>vKeq\<close>
  contains \<open>Keq\<close>, so its rate constant \<open>kf_vKeq\<close> is taken for an equilibrium constant
  and \<^verbatim>\<open>perc\<close> is never bound; with the stored flux \<open>0\<close> the call raises
  UnboundLocalError.  Neither call assigns \<open>at_equilibrium_default\<close>, whatever the solver,
  the default and \<open>update_reactions\<close> are.
\<close>

theorem calc_PERCS_zero_flux_raises:
  "missing_values (\<lambda>b. []) example_model_unstored (Some example_concentrations)
     (Some example_zero_fluxes) = ([], []) \<and>
   flux_map example_model_unstored (Some example_zero_fluxes) (rid v1) = Some 0 \<and>
   flux_map example_model_unstored (Some example_zero_fluxes) (rid v2) = Some 0 \<and>
   calc_PERCS solveset (\<lambda>b. []) (generate_rate_law example_elements) generate_rate_expr_type_1
     example_model_unstored (Some example_concentrations) (Some example_zero_fluxes)
     dflt upd = Inl KeyError \<and>
   missing_values (\<lambda>b. []) example_model_Keq None None = ([], []) \<and>
   flux_map example_model_Keq None (rid v_Keq) = Some 0 \<and>
   calc_PERCS solveset (\<lambda>b. []) (generate_rate_law example_elements) generate_rate_expr_type_1
     example_model_Keq None None dflt upd = Inl UnboundLocalError"
proof -
  have a: "flux_map example_model_unstored (Some example_zero_fluxes) (rid v1) = Some 0"
    "flux_map example_model_unstored (Some example_zero_fluxes) (rid v2) = Some 0"
    by (simp_all add: flux_map_def example_rids example_zero_fluxes_def)
  have b: "flux_map example_model_Keq None (rid v_Keq) = Some 0"
    by (simp add: flux_map_def example_perc_defs example_reaction_def)
  show ?thesis
    using a b example_unstored_missing example_unstored_raises example_Keq_missing
      example_Keq_raises
    by simp
qed

theorem calc_PERCS_zero_flux_raises_witness:
  "calc_PERCS (\<lambda>flux rate vals p. Inr []) (\<lambda>b. []) (generate_rate_law example_elements)
     generate_rate_expr_type_1 example_model_unstored (Some example_concentrations)
     (Some example_zero_fluxes) 100000 True = Inl KeyError \<and>
   calc_PERCS (\<lambda>flux rate vals p. Inr []) (\<lambda>b. []) (generate_rate_law example_elements)
     generate_rate_expr_type_1 example_model_Keq None None 100000 True
     = Inl UnboundLocalError"
  using calc_PERCS_zero_flux_raises[of "\<lambda>flux rate vals p. Inr []" 100000 True] by simp


lemma example_two_roots_sorted:
  "sort_symbols (generate_rate_law example_elements) generate_rate_expr_type_1
     (example_model_two_roots\<lparr>rtype := 1\<rparr>) =
   Inr ([(''A'', Some (Add (Num 0)
                (Mul (Num (- 1))
                  (Mul (Symbol ''kf_v1'' False)
                    (Add (Mul (Num 1) (MetabFun ''A''))
                      (Mul (Num (- 1))
                        (Mul (Pow (Symbol ''Keq_v1'' False) (- 1)) (MetabFun ''B'')))))))),
         (''B'', Some (Add (Num 0)
                (Mul (Symbol ''kf_v1'' False)
                  (Add (Mul (Num 1) (MetabFun ''A''))
                    (Mul (Num (- 1))
                      (Mul (Pow (Symbol ''Keq_v1'' False) (- 1)) (MetabFun ''B'')))))))],
        Some [(''v1'', Some (Mul (Symbol ''kf_v1'' False)
                 (Add (Mul (Num 1) (MetabFun ''A''))
                   (Mul (Num (- 1))
                     (Mul (Pow (Symbol ''Keq_v1'' False) (- 1)) (MetabFun ''B'')))))),
              (''v3'', Some (Pow (Symbol ''kf_v1'' False) 2))],
        \<lparr>metab_funcs = [''B'', ''A''],
         rate_params = [(''Keq_v1'', False), (''kf_v1'', False)],
         fixed_concs = [], custom_params = []\<rparr>)"
  by (simp add: example_perc_defs example_defs pipeline_defs)

lemma example_two_roots_stripped:
  "strip_time
     (Some [(''v1'', Some (Mul (Symbol ''kf_v1'' False)
                 (Add (Mul (Num 1) (MetabFun ''A''))
                   (Mul (Num (- 1))
                     (Mul (Pow (Symbol ''Keq_v1'' False) (- 1)) (MetabFun ''B'')))))),
            (''v3'', Some (Pow (Symbol ''kf_v1'' False) 2))]) =
   Inr ([(''v1'', Mul (Symbol ''kf_v1'' False)
                 (Add (Mul (Num 1) (Symbol ''A'' False))
                   (Mul (Num (- 1))
                     (Mul (Pow (Symbol ''Keq_v1'' False) (- 1)) (Symbol ''B'' False)))))]
        @ (''v3'', Pow (Symbol ''kf_v1'' False) 2) # [])"
  by (simp add: strip_time_def bind_err_def)


lemma example_two_roots_key: "reaction_of_key (example_model_two_roots\<lparr>rtype := 1\<rparr>) ''v3'' = Inr v3"
  by (simp add: reaction_of_key_def example_perc_defs example_defs)


lemma example_two_roots_collect:
  "collect_values (example_model_two_roots\<lparr>rtype := 1\<rparr>)
     \<lparr>metab_funcs = [''B'', ''A''],
      rate_params = [(''Keq_v1'', False), (''kf_v1'', False)],
      fixed_concs = [], custom_params = []\<rparr>
     v3 (atoms_Symbol (Pow (Symbol ''kf_v1'' False) 2)) ([], Some (''kf_v1'', False)) =
   Inr ([], Some (''kf_v1'', False))"
  by (simp add: bind_err_def str_sym_def)






text \<open>
  The same model with the flux \<open>-4\<close> for \<open>v3\<close>: the equation has no real root, and the
  KeyError of popping the empty solution set reaches the caller.
\<close>

lemma example_no_root_raises:
  "(\<forall>x. subs_eval [] (''kf_v1'', False) x (Pow (Symbol ''kf_v1'' False) 2) \<noteq> - 4) \<and>
   calc_PERCS example_solveset (\<lambda>b. []) (generate_rate_law example_elements)
     generate_rate_expr_type_1 example_model_two_roots None (Some example_negative_fluxes)
     100000 False = Inl KeyError"
proof
  show "\<forall>x. subs_eval [] (''kf_v1'', False) x (Pow (Symbol ''kf_v1'' False) 2) \<noteq> - 4"
  proof
    fix x :: real
    have "0 \<le> x ^ 2" by simp
    then have "x ^ 2 \<noteq> - 4" by linarith
    then show "subs_eval [] (''kf_v1'', False) x (Pow (Symbol ''kf_v1'' False) 2) \<noteq> - 4"
      by (simp add: subs_eval_def)
  qed
  have m: "missing_values (\<lambda>b. []) example_model_two_roots None (Some example_negative_fluxes)
             = ([], [])"
    by (simp add: missing_values_def example_perc_defs example_defs)
  have v1: "percs_loop example_solveset (example_model_two_roots\<lparr>rtype := 1\<rparr>)
     \<lparr>metab_funcs = [''B'', ''A''],
      rate_params = [(''Keq_v1'', False), (''kf_v1'', False)],
      fixed_concs = [], custom_params = []\<rparr>
     (flux_map example_model_two_roots (Some example_negative_fluxes)) 100000 False
     [(''v1'', Mul (Symbol ''kf_v1'' False)
                 (Add (Mul (Num 1) (Symbol ''A'' False))
                   (Mul (Num (- 1))
                     (Mul (Pow (Symbol ''Keq_v1'' False) (- 1)) (Symbol ''B'' False)))))]
     \<lparr>percs_dict = [], perc = None, kf_assigned = []\<rparr> =
   Inr \<lparr>percs_dict = [(''kf_v1'', 100000)], perc = Some (''kf_v1'', False), kf_assigned = []\<rparr>"
    by (simp add: example_perc_defs example_defs percs_iteration_def reaction_of_key_def
        bind_err_def str_sym_def map_get_def flux_map_def bound_perc_def set_pop_def)
  have f: "flux_map example_model_two_roots (Some example_negative_fluxes) (rid v3) = Some (- 4)"
    by (simp add: flux_map_def example_rids example_negative_fluxes_def)
  have s: "example_solveset (- 4) (Pow (Symbol ''kf_v1'' False) 2) [] (''kf_v1'', False) = Inr []"
    by (simp add: example_solveset_def)
  have pass: "percs_iteration example_solveset (example_model_two_roots\<lparr>rtype := 1\<rparr>)
     \<lparr>metab_funcs = [''B'', ''A''],
      rate_params = [(''Keq_v1'', False), (''kf_v1'', False)],
      fixed_concs = [], custom_params = []\<rparr>
     (flux_map example_model_two_roots (Some example_negative_fluxes)) 100000 False
     (''v3'', Pow (Symbol ''kf_v1'' False) 2)
     \<lparr>percs_dict = [(''kf_v1'', 100000)], perc = Some (''kf_v1'', False), kf_assigned = []\<rparr>
     = Inl KeyError"
    using example_two_roots_key f example_two_roots_collect s
    by (simp add: percs_iteration_def bind_err_def map_get_def bound_perc_def set_pop_def
        str_sym_def)
  show "calc_PERCS example_solveset (\<lambda>b. []) (generate_rate_law example_elements)
     generate_rate_expr_type_1 example_model_two_roots None (Some example_negative_fluxes)
     100000 False = Inl KeyError"
    unfolding calc_PERCS_loop[OF m example_two_roots_sorted example_two_roots_stripped]
      percs_loop_append v1
    using pass by (simp add: bind_err_def)
qed

section \<open>Adding reactions registers and links their metabolites\<close>

lemma model_extends_refl: "model_extends H H"
  by (simp add: model_extends_def)

lemma model_extends_trans:
  assumes a: "model_extends H1 H2" and b: "model_extends H2 H3"
  shows "model_extends H1 H3"
proof -
  have s: "set (registered_metabolites H1) \<subseteq> set (registered_metabolites H3)"
    using a b unfolding model_extends_def by blast
  have r: "\<forall>m. o_reaction (metabolite_at H1 m) \<subseteq> o_reaction (metabolite_at H3 m)"
    using a b unfolding model_extends_def by blast
  have i: "\<forall>m. o_id (metabolite_at H3 m) = o_id (metabolite_at H1 m)"
    using a b unfolding model_extends_def by simp
  have c: "\<forall>m. o_ic (metabolite_at H3 m) = o_ic (metabolite_at H1 m)"
    using a b unfolding model_extends_def by simp
  have old: "\<forall>m \<in> set (registered_metabolites H1). ic_map H3 m = ic_map H1 m"
    using a b unfolding model_extends_def by auto
  have new: "\<forall>m \<in> set (registered_metabolites H3) - set (registered_metabolites H1).
        \<forall>v. o_ic (metabolite_at H1 m) = Some v \<longrightarrow> ic_map H3 m = Some v"
  proof (intro ballI allI impI)
    fix m v
    assume m: "m \<in> set (registered_metabolites H3) - set (registered_metabolites H1)"
      and v: "o_ic (metabolite_at H1 m) = Some v"
    show "ic_map H3 m = Some v"
    proof (cases "m \<in> set (registered_metabolites H2)")
      case True
      with m v a have "ic_map H2 m = Some v" unfolding model_extends_def by auto
      moreover from True b have "ic_map H3 m = ic_map H2 m" unfolding model_extends_def by auto
      ultimately show ?thesis by simp
    next
      case False
      from v a have "o_ic (metabolite_at H2 m) = Some v" unfolding model_extends_def by simp
      with False m b show ?thesis unfolding model_extends_def by auto
    qed
  qed
  have d: "distinct (metabolite_ids H1) \<longrightarrow> distinct (metabolite_ids H3)"
    using a b unfolding model_extends_def by blast
  show ?thesis unfolding model_extends_def using s r i c old new d by blast
qed

lemma model_extends_ids:
  "model_extends H H' \<Longrightarrow> o_id (metabolite_at H' m) = o_id (metabolite_at H m)"
  by (simp add: model_extends_def)

lemma get_by_id_member:
  "get_by_id ident xs k = Inr a \<Longrightarrow> a \<in> set xs \<and> ident a = k"
  by (induction xs) (auto split: if_splits)

lemma linked_metabolite_mono:
  "model_extends H H' \<Longrightarrow> linked_metabolite H rxn m \<Longrightarrow> linked_metabolite H' rxn m"
  by (auto simp: model_extends_def linked_metabolite_def)

lemma key_ids_cong:
  assumes "r_metabolites (reaction_at H' r) = r_metabolites (reaction_at H r)"
    and "\<forall>m. o_id (metabolite_at H' m) = o_id (metabolite_at H m)"
  shows "key_ids H' r = key_ids H r"
  using assms by (simp add: key_ids_def)

lemma entries_by_id_cong:
  assumes "r_metabolites (reaction_at H' r) = r_metabolites (reaction_at H r)"
    and "\<forall>m. o_id (metabolite_at H' m) = o_id (metabolite_at H m)"
  shows "entries_by_id H' r = entries_by_id H r"
  using assms by (simp add: entries_by_id_def)

lemma dict_set_entries: "set (dict_set k v d) \<subseteq> insert (k, v) (set d)"
  by (induction d) (auto split: if_splits)

lemma add_metabolites_single:
  assumes "o_id (metabolite_at H metab) \<notin> set (metabolite_ids H)"
  shows "\<exists>H1. add_metabolites H [metab] True = Inr H1 \<and>
           registered_metabolites H1 = registered_metabolites H @ [metab] \<and>
           metabolite_at H1 = (metabolite_at H)(metab := (metabolite_at H metab)\<lparr>o_model := True\<rparr>) \<and>
           ic_map H1 = (case o_ic (metabolite_at H metab) of
                          None \<Rightarrow> ic_map H | Some v \<Rightarrow> (ic_map H)(metab \<mapsto> v)) \<and>
           reaction_at H1 = reaction_at H \<and>
           registered_reactions H1 = registered_reactions H"
  using assms
  by (auto simp: add_metabolites_def set_initial_conditions_def update_initial_conditions_def
        metabolite_ids_def Let_def split: option.splits)

lemma dict_set_keys: "fst ` set (dict_set k v d) = insert k (fst ` set d)"
proof (induction d)
  case Nil
  then show ?case by simp
next
  case (Cons kv d)
  obtain k' v' where kv: "kv = (k', v')" by (cases kv)
  show ?case
  proof (cases "k' = k")
    case True
    then show ?thesis using kv by auto
  next
    case False
    then show ?thesis using kv Cons.IH by (simp add: insert_commute)
  qed
qed

lemma not_registered:
  "o_id (metabolite_at H metab) \<notin> set (metabolite_ids H) \<Longrightarrow>
   metab \<notin> set (registered_metabolites H)"
  by (auto simp: metabolite_ids_def)

lemma metabolite_ids_append:
  assumes "registered_metabolites H' = registered_metabolites H @ [k]"
    and "\<forall>m. o_id (metabolite_at H' m) = o_id (metabolite_at H m)"
  shows "metabolite_ids H' = metabolite_ids H @ [o_id (metabolite_at H k)]"
  using assms by (simp add: metabolite_ids_def)

lemma metabolite_ids_same:
  assumes "registered_metabolites H' = registered_metabolites H"
    and "\<forall>m. o_id (metabolite_at H' m) = o_id (metabolite_at H m)"
  shows "metabolite_ids H' = metabolite_ids H"
  using assms by (simp add: metabolite_ids_def)

text \<open>
  One metabolite of the loop: the model is extended, the other reactions are untouched,
  the identifiers of the reaction's keys are the same as before, and each key is either
  a key that the loop has yet to visit or linked.
\<close>

lemma link_metabolite_step:
  assumes "link_metabolite H rxn k = Inr H'"
  shows "model_extends H H' \<and>
         (\<forall>r. r \<noteq> rxn \<longrightarrow> reaction_at H' r = reaction_at H r) \<and>
         r_id (reaction_at H' rxn) = r_id (reaction_at H rxn) \<and>
         r_genes (reaction_at H' rxn) = r_genes (reaction_at H rxn) \<and>
         registered_reactions H' = registered_reactions H \<and>
         key_ids H' rxn = key_ids H rxn \<and>
         entries_by_id H' rxn \<subseteq> entries_by_id H rxn \<and>
         (\<forall>m \<in> fst ` set (r_metabolites (reaction_at H' rxn)).
            (m \<in> fst ` set (r_metabolites (reaction_at H rxn)) \<and> m \<noteq> k) \<or>
            linked_metabolite H' rxn m)"
proof (cases "o_id (metabolite_at H k) \<in> set (metabolite_ids H)")
  case False
  from add_metabolites_single[OF False] obtain H1 where
    H1: "add_metabolites H [k] True = Inr H1"
      "registered_metabolites H1 = registered_metabolites H @ [k]"
      "metabolite_at H1 = (metabolite_at H)(k := (metabolite_at H k)\<lparr>o_model := True\<rparr>)"
      "ic_map H1 = (case o_ic (metabolite_at H k) of
                          None \<Rightarrow> ic_map H | Some v \<Rightarrow> (ic_map H)(k \<mapsto> v))"
      "reaction_at H1 = reaction_at H" "registered_reactions H1 = registered_reactions H"
    by blast
  have H': "H' = add_back_reference H1 k rxn"
    using assms False H1(1) by (simp add: link_metabolite_def bind_err_def)
  have nk: "k \<notin> set (registered_metabolites H)" using not_registered[OF False] .
  have ids: "\<forall>m. o_id (metabolite_at H' m) = o_id (metabolite_at H m)"
    unfolding H' add_back_reference_def using H1(3) by simp
  have regs: "registered_metabolites H' = registered_metabolites H @ [k]"
    unfolding H' add_back_reference_def using H1(2) by simp
  have dist: "distinct (metabolite_ids H) \<longrightarrow> distinct (metabolite_ids H')"
    unfolding metabolite_ids_append[OF regs ids] using False by simp
  have ext: "model_extends H H'"
    unfolding model_extends_def using dist
    unfolding H' add_back_reference_def using H1 nk
    by (auto split: option.splits)
  have lk: "linked_metabolite H' rxn k"
    unfolding linked_metabolite_def H' add_back_reference_def using H1 by simp
  have rm: "reaction_at H' = reaction_at H"
    unfolding H' add_back_reference_def using H1(5) by simp
  have kid: "key_ids H' rxn = key_ids H rxn"
    using key_ids_cong[OF _ ids] rm by simp
  have ent: "entries_by_id H' rxn \<subseteq> entries_by_id H rxn"
    using entries_by_id_cong[OF _ ids] rm by simp
  show ?thesis
    using ext lk kid ent rm H1(6) unfolding H' add_back_reference_def by auto
next
  case True
  from assms True obtain coefficient d mm where
    pop: "dict_pop k (r_metabolites (reaction_at H rxn)) = Inr (coefficient, d)"
    and gb: "get_by_id (\<lambda>a. o_id (metabolite_at H a)) (registered_metabolites H)
               (o_id (metabolite_at H k)) = Inr mm"
    and H': "H' = add_back_reference
               (H\<lparr>reaction_at := (reaction_at H)(rxn :=
                     (reaction_at H rxn)\<lparr>r_metabolites := dict_set mm coefficient d\<rparr>)\<rparr>) mm rxn"
    by (auto simp: link_metabolite_def bind_err_def Let_def split: sum.splits prod.splits)
  from get_by_id_member[OF gb] have mm: "mm \<in> set (registered_metabolites H)"
    and mid: "o_id (metabolite_at H mm) = o_id (metabolite_at H k)" by simp_all
  have d: "d = filter (\<lambda>kv. fst kv \<noteq> k) (r_metabolites (reaction_at H rxn))"
    and kc: "(k, coefficient) \<in> set (r_metabolites (reaction_at H rxn))"
    using pop by (auto simp: dict_pop_def split: option.splits dest: map_of_SomeD)
  have kin: "k \<in> fst ` set (r_metabolites (reaction_at H rxn))"
    using kc by (auto intro: rev_image_eqI)
  have ids: "\<forall>m. o_id (metabolite_at H' m) = o_id (metabolite_at H m)"
    unfolding H' add_back_reference_def by simp
  have regs: "registered_metabolites H' = registered_metabolites H"
    unfolding H' add_back_reference_def by simp
  have dist: "distinct (metabolite_ids H) \<longrightarrow> distinct (metabolite_ids H')"
    unfolding metabolite_ids_same[OF regs ids] by simp
  have ext: "model_extends H H'"
    unfolding model_extends_def using dist
    unfolding H' add_back_reference_def by auto
  have lk: "linked_metabolite H' rxn mm"
    unfolding linked_metabolite_def H' add_back_reference_def using mm by simp
  have keys: "fst ` set (r_metabolites (reaction_at H' rxn)) =
                insert mm (fst ` set (r_metabolites (reaction_at H rxn)) - {k})"
    unfolding H' add_back_reference_def d by (auto simp: dict_set_keys)
  have "key_ids H' rxn = (\<lambda>m. o_id (metabolite_at H' m)) ` fst ` set (r_metabolites (reaction_at H' rxn))"
    by (simp add: key_ids_def image_image)
  also have "\<dots> = (\<lambda>m. o_id (metabolite_at H m)) `
                     insert mm (fst ` set (r_metabolites (reaction_at H rxn)) - {k})"
    unfolding keys using ids by simp
  also have "\<dots> = (\<lambda>m. o_id (metabolite_at H m)) ` fst ` set (r_metabolites (reaction_at H rxn))"
    using kin mid by auto
  also have "\<dots> = key_ids H rxn" by (simp add: key_ids_def image_image)
  finally have kid: "key_ids H' rxn = key_ids H rxn" .
  have post: "r_metabolites (reaction_at H' rxn) = dict_set mm coefficient d"
    unfolding H' add_back_reference_def by simp
  have ent: "entries_by_id H' rxn \<subseteq> entries_by_id H rxn"
  proof
    fix e assume "e \<in> entries_by_id H' rxn"
    then obtain m c where mc: "(m, c) \<in> set (dict_set mm coefficient d)"
      and e: "e = (o_id (metabolite_at H m), c)"
      unfolding entries_by_id_def post using ids by auto
    from mc dict_set_entries[of mm coefficient d]
    have "(m, c) = (mm, coefficient) \<or> (m, c) \<in> set d" by auto
    then show "e \<in> entries_by_id H rxn"
    proof
      assume "(m, c) = (mm, coefficient)"
      then have "e = (o_id (metabolite_at H k), coefficient)" using e mid by simp
      then show ?thesis using kc unfolding entries_by_id_def by force
    next
      assume "(m, c) \<in> set d"
      then have "(m, c) \<in> set (r_metabolites (reaction_at H rxn))" unfolding d by simp
      then show ?thesis using e unfolding entries_by_id_def by force
    qed
  qed
  show ?thesis
    using ext lk kid ent unfolding keys unfolding H' add_back_reference_def by auto
qed

lemma link_metabolites_loop:
  assumes "link_metabolites H rxn ks = Inr H'"
    and "\<forall>m \<in> fst ` set (r_metabolites (reaction_at H rxn)).
           m \<in> set ks \<or> linked_metabolite H rxn m"
  shows "model_extends H H' \<and>
         (\<forall>r. r \<noteq> rxn \<longrightarrow> reaction_at H' r = reaction_at H r) \<and>
         r_id (reaction_at H' rxn) = r_id (reaction_at H rxn) \<and>
         r_genes (reaction_at H' rxn) = r_genes (reaction_at H rxn) \<and>
         registered_reactions H' = registered_reactions H \<and>
         key_ids H' rxn = key_ids H rxn \<and>
         entries_by_id H' rxn \<subseteq> entries_by_id H rxn \<and>
         linked_reaction H' rxn"
  using assms
proof (induction ks arbitrary: H)
  case Nil
  then show ?case by (auto simp: model_extends_refl linked_reaction_def)
next
  case (Cons k ks)
  from Cons.prems(1) obtain H1 where
    step: "link_metabolite H rxn k = Inr H1" and rest: "link_metabolites H1 rxn ks = Inr H'"
    by (auto simp: bind_err_def split: sum.splits)
  note s = link_metabolite_step[OF step]
  from s have ext: "model_extends H H1" by simp
  have inv: "\<forall>m \<in> fst ` set (r_metabolites (reaction_at H1 rxn)).
           m \<in> set ks \<or> linked_metabolite H1 rxn m"
  proof
    fix m assume "m \<in> fst ` set (r_metabolites (reaction_at H1 rxn))"
    with s have "(m \<in> fst ` set (r_metabolites (reaction_at H rxn)) \<and> m \<noteq> k) \<or>
            linked_metabolite H1 rxn m" by blast
    then show "m \<in> set ks \<or> linked_metabolite H1 rxn m"
    proof
      assume a: "m \<in> fst ` set (r_metabolites (reaction_at H rxn)) \<and> m \<noteq> k"
      with Cons.prems(2) have "m \<in> set (k # ks) \<or> linked_metabolite H rxn m" by blast
      with a show ?thesis using linked_metabolite_mono[OF ext] by auto
    qed simp
  qed
  from Cons.IH[OF rest inv] s show ?case
    using model_extends_trans[OF ext] by auto
qed

text \<open>
  The loop over the genes of a reaction changes the genes of that reaction, the gene
  objects and the gene registry, and nothing else; it always returns.
\<close>

lemma get_by_id_total:
  "k \<in> ident ` set xs \<Longrightarrow> \<exists>a. get_by_id ident xs k = Inr a"
  by (induction xs) auto

lemma link_gene_frame:
  "\<exists>H'. link_gene H rxn gene = Inr H' \<and>
     metabolite_at H' = metabolite_at H \<and>
     registered_metabolites H' = registered_metabolites H \<and>
     registered_reactions H' = registered_reactions H \<and>
     ic_map H' = ic_map H \<and>
     stored_S H' = stored_S H \<and> stored_matrix_type H' = stored_matrix_type H \<and>
     stored_dtype H' = stored_dtype H \<and>
     (\<forall>r. r \<noteq> rxn \<longrightarrow> reaction_at H' r = reaction_at H r) \<and>
     r_id (reaction_at H' rxn) = r_id (reaction_at H rxn) \<and>
     r_metabolites (reaction_at H' rxn) = r_metabolites (reaction_at H rxn)"
proof (cases "g_id (gene_at H gene) \<in> set (gene_ids H)")
  case False
  then show ?thesis by (simp add: link_gene_def)
next
  case True
  then obtain mg where
    "get_by_id (\<lambda>a. g_id (gene_at H a)) (registered_genes H) (g_id (gene_at H gene)) = Inr mg"
    using get_by_id_total[of "g_id (gene_at H gene)" "\<lambda>a. g_id (gene_at H a)"
        "registered_genes H"]
    by (auto simp: gene_ids_def)
  then show ?thesis
    using True
    by (simp add: link_gene_def bind_err_def associate_gene_def dissociate_gene_def)
qed

lemma link_genes_frame:
  "\<exists>H'. link_genes H rxn genes = Inr H' \<and>
     metabolite_at H' = metabolite_at H \<and>
     registered_metabolites H' = registered_metabolites H \<and>
     registered_reactions H' = registered_reactions H \<and>
     ic_map H' = ic_map H \<and>
     stored_S H' = stored_S H \<and> stored_matrix_type H' = stored_matrix_type H \<and>
     stored_dtype H' = stored_dtype H \<and>
     (\<forall>r. r \<noteq> rxn \<longrightarrow> reaction_at H' r = reaction_at H r) \<and>
     r_id (reaction_at H' rxn) = r_id (reaction_at H rxn) \<and>
     r_metabolites (reaction_at H' rxn) = r_metabolites (reaction_at H rxn)"
proof (induction genes arbitrary: H)
  case Nil
  then show ?case by simp
next
  case (Cons gene genes)
  from link_gene_frame[of H rxn gene] obtain H1 where
    H1: "link_gene H rxn gene = Inr H1"
      "metabolite_at H1 = metabolite_at H"
      "registered_metabolites H1 = registered_metabolites H"
      "registered_reactions H1 = registered_reactions H"
      "ic_map H1 = ic_map H"
      "stored_S H1 = stored_S H" "stored_matrix_type H1 = stored_matrix_type H"
      "stored_dtype H1 = stored_dtype H"
      "\<forall>r. r \<noteq> rxn \<longrightarrow> reaction_at H1 r = reaction_at H r"
      "r_id (reaction_at H1 rxn) = r_id (reaction_at H rxn)"
      "r_metabolites (reaction_at H1 rxn) = r_metabolites (reaction_at H rxn)"
    by blast
  from Cons.IH[of H1] obtain H' where
    H': "link_genes H1 rxn genes = Inr H'"
      "metabolite_at H' = metabolite_at H1"
      "registered_metabolites H' = registered_metabolites H1"
      "registered_reactions H' = registered_reactions H1"
      "ic_map H' = ic_map H1"
      "stored_S H' = stored_S H1" "stored_matrix_type H' = stored_matrix_type H1"
      "stored_dtype H' = stored_dtype H1"
      "\<forall>r. r \<noteq> rxn \<longrightarrow> reaction_at H' r = reaction_at H1 r"
      "r_id (reaction_at H' rxn) = r_id (reaction_at H1 rxn)"
      "r_metabolites (reaction_at H' rxn) = r_metabolites (reaction_at H1 rxn)"
    by blast
  have "link_genes H rxn (gene # genes) = Inr H'"
    using H1(1) H'(1) by (simp add: bind_err_def)
  then show ?case using H1 H' by simp
qed

lemma same_metabolites_extends:
  assumes "metabolite_at H' = metabolite_at H"
    and "registered_metabolites H' = registered_metabolites H"
    and "ic_map H' = ic_map H"
  shows "model_extends H H'"
  using assms by (simp add: model_extends_def metabolite_ids_def)

lemma linked_reaction_cong:
  assumes "linked_reaction H rxn" and "model_extends H H'"
    and "r_metabolites (reaction_at H' rxn) = r_metabolites (reaction_at H rxn)"
  shows "linked_reaction H' rxn"
  using assms linked_metabolite_mono[OF assms(2)] by (auto simp: linked_reaction_def)

text \<open>
  The loop over the new reactions: every reaction of the list ends up linked, with the
  identifiers of its keys unchanged; the reactions outside the list are untouched.
\<close>

lemma add_reaction_loop_links:
  assumes "add_reaction_loop H rs = Inr H'" and "distinct rs"
  shows "model_extends H H' \<and>
         registered_reactions H' = registered_reactions H \<and>
         (\<forall>r. r \<notin> set rs \<longrightarrow> reaction_at H' r = reaction_at H r) \<and>
         (\<forall>r. r_id (reaction_at H' r) = r_id (reaction_at H r)) \<and>
         (\<forall>r. key_ids H' r = key_ids H r) \<and>
         (\<forall>r. entries_by_id H' r \<subseteq> entries_by_id H r) \<and>
         (\<forall>r \<in> set rs. linked_reaction H' r)"
  using assms
proof (induction rs arbitrary: H)
  case Nil
  then show ?case by (simp add: model_extends_refl)
next
  case (Cons rxn rs)
  define H1 where
    "H1 = H\<lparr>reaction_at := (reaction_at H)(rxn := (reaction_at H rxn)\<lparr>r_model := True\<rparr>)\<rparr>"
  from Cons.prems(1) obtain H2 H3 where
    link: "link_metabolites H1 rxn (map fst (r_metabolites (reaction_at H1 rxn))) = Inr H2"
    and genes: "link_genes H2 rxn (r_genes (reaction_at H2 rxn)) = Inr H3"
    and rest: "add_reaction_loop H3 rs = Inr H'"
    by (auto simp: bind_err_def Let_def H1_def split: sum.splits)
  have e1: "model_extends H H1" by (simp add: model_extends_def H1_def metabolite_ids_def)
  have k1: "\<forall>r. key_ids H1 r = key_ids H r" by (simp add: key_ids_def H1_def)
  have n1: "\<forall>r. entries_by_id H1 r = entries_by_id H r"
    by (simp add: entries_by_id_def H1_def)
  have i1: "\<forall>r. r_id (reaction_at H1 r) = r_id (reaction_at H r)" by (simp add: H1_def)
  have "\<forall>m \<in> fst ` set (r_metabolites (reaction_at H1 rxn)).
           m \<in> set (map fst (r_metabolites (reaction_at H1 rxn))) \<or> linked_metabolite H1 rxn m"
    by simp
  from link_metabolites_loop[OF link this]
  have l: "model_extends H1 H2" "\<forall>r. r \<noteq> rxn \<longrightarrow> reaction_at H2 r = reaction_at H1 r"
    "registered_reactions H2 = registered_reactions H1" "linked_reaction H2 rxn"
    "key_ids H2 rxn = key_ids H1 rxn" "r_id (reaction_at H2 rxn) = r_id (reaction_at H1 rxn)"
    "entries_by_id H2 rxn \<subseteq> entries_by_id H1 rxn"
    by simp_all
  have k2: "\<forall>r. key_ids H2 r = key_ids H1 r"
  proof
    fix r show "key_ids H2 r = key_ids H1 r"
    proof (cases "r = rxn")
      case True then show ?thesis using l(5) by simp
    next
      case False
      then show ?thesis
        using key_ids_cong[of H2 r H1] l(2) model_extends_ids[OF l(1)] by simp
    qed
  qed
  have n2: "\<forall>r. entries_by_id H2 r \<subseteq> entries_by_id H1 r"
  proof
    fix r show "entries_by_id H2 r \<subseteq> entries_by_id H1 r"
    proof (cases "r = rxn")
      case True then show ?thesis using l(7) by simp
    next
      case False
      then show ?thesis
        using entries_by_id_cong[of H2 r H1] l(2) model_extends_ids[OF l(1)] by simp
    qed
  qed
  have i2: "\<forall>r. r_id (reaction_at H2 r) = r_id (reaction_at H1 r)"
    using l(2,6) by metis
  from link_genes_frame[of H2 rxn "r_genes (reaction_at H2 rxn)"] genes
  have g: "metabolite_at H3 = metabolite_at H2"
      "registered_metabolites H3 = registered_metabolites H2"
      "registered_reactions H3 = registered_reactions H2"
      "ic_map H3 = ic_map H2"
      "\<forall>r. r \<noteq> rxn \<longrightarrow> reaction_at H3 r = reaction_at H2 r"
      "r_id (reaction_at H3 rxn) = r_id (reaction_at H2 rxn)"
      "r_metabolites (reaction_at H3 rxn) = r_metabolites (reaction_at H2 rxn)"
    by auto
  have e3: "model_extends H2 H3" using same_metabolites_extends[OF g(1,2,4)] .
  have rm3: "\<forall>r. r_metabolites (reaction_at H3 r) = r_metabolites (reaction_at H2 r)"
    using g(5,7) by metis
  have k3: "\<forall>r. key_ids H3 r = key_ids H2 r"
    using rm3 g(1) by (simp add: key_ids_def)
  have n3: "\<forall>r. entries_by_id H3 r = entries_by_id H2 r"
    using rm3 g(1) by (simp add: entries_by_id_def)
  have i3: "\<forall>r. r_id (reaction_at H3 r) = r_id (reaction_at H2 r)"
    using g(5,6) by metis
  have l3: "linked_reaction H3 rxn"
    using linked_reaction_cong[OF l(4) e3] rm3 by simp
  from Cons.prems(2) have d: "distinct rs" and nin: "rxn \<notin> set rs" by simp_all
  from Cons.IH[OF rest d]
  have r: "model_extends H3 H'" "registered_reactions H' = registered_reactions H3"
    "\<forall>r. r \<notin> set rs \<longrightarrow> reaction_at H' r = reaction_at H3 r"
    "\<forall>r. r_id (reaction_at H' r) = r_id (reaction_at H3 r)"
    "\<forall>r. key_ids H' r = key_ids H3 r"
    "\<forall>r \<in> set rs. linked_reaction H' r"
    "\<forall>r. entries_by_id H' r \<subseteq> entries_by_id H3 r"
    by simp_all
  have ext: "model_extends H H'"
    using model_extends_trans[OF e1 model_extends_trans[OF l(1)
          model_extends_trans[OF e3 r(1)]]] .
  have regs: "registered_reactions H' = registered_reactions H"
    using r(2) g(3) l(3) by (simp add: H1_def)
  have frame: "\<forall>r. r \<notin> set (rxn # rs) \<longrightarrow> reaction_at H' r = reaction_at H r"
    using r(3) g(5) l(2) by (simp add: H1_def)
  have ids: "\<forall>r. r_id (reaction_at H' r) = r_id (reaction_at H r)"
    using r(4) i3 i2 i1 by simp
  have kids: "\<forall>r. key_ids H' r = key_ids H r"
    using r(5) k3 k2 k1 by simp
  have ents: "\<forall>r. entries_by_id H' r \<subseteq> entries_by_id H r"
  proof
    fix r
    have "entries_by_id H' r \<subseteq> entries_by_id H3 r" using r(7) by simp
    also have "\<dots> = entries_by_id H2 r" using n3 by simp
    also have "\<dots> \<subseteq> entries_by_id H1 r" using n2 by simp
    also have "\<dots> = entries_by_id H r" using n1 by simp
    finally show "entries_by_id H' r \<subseteq> entries_by_id H r" .
  qed
  have "linked_reaction H' rxn"
    using linked_reaction_cong[OF l3 r(1)] r(3) nin by simp
  with r(6) have "\<forall>r \<in> set (rxn # rs). linked_reaction H' r" by simp
  with ext regs frame ids kids ents show ?case by blast
qed

text \<open>
  The call of \<^verbatim>\<open>update_S\<close> at the end of \<^verbatim>\<open>add_reactions\<close> writes the three matrix
  attributes only: what \<open>add_reactions\<close> returns differs from the model with the
  reactions appended in nothing but these.
\<close>

lemma bind_err_InrE:
  assumes "bind_err m f = Inr y"
  obtains x where "m = Inr x" and "f x = Inr y"
  using assms by (cases m) (simp_all add: bind_err_def)

lemma register_reactions_result:
  assumes "register_reactions H rl = Inr H2"
  shows "\<exists>H1 s mt dt. add_reaction_loop H (new_reactions H rl) = Inr H1 \<and>
           H2 = H1\<lparr>registered_reactions := registered_reactions H1 @ new_reactions H rl,
                   stored_S := s, stored_matrix_type := mt, stored_dtype := dt\<rparr>"
proof -
  from assms obtain H1 where
    loop: "add_reaction_loop H (new_reactions H rl) = Inr H1"
    and "H2 = H1\<lparr>registered_reactions := registered_reactions H1 @ new_reactions H rl\<rparr>"
    unfolding register_reactions_def by (auto elim!: bind_err_InrE)
  then have eq:
    "H2 = H1\<lparr>registered_reactions := registered_reactions H1 @ new_reactions H rl,
             stored_S := stored_S H1, stored_matrix_type := stored_matrix_type H1,
             stored_dtype := stored_dtype H1\<rparr>"
    by simp
  show ?thesis by (intro exI conjI) (rule loop, rule eq)
qed

lemma add_reactions_result:
  assumes "add_reactions H rl upd = Inr H'" and "rl \<noteq> []"
  shows "distinct (map (\<lambda>a. r_id (reaction_at H a)) rl) \<and>
         (\<exists>H1 s mt dt. add_reaction_loop H (new_reactions H rl) = Inr H1 \<and>
           H' = H1\<lparr>registered_reactions := registered_reactions H1 @ new_reactions H rl,
                   stored_S := s, stored_matrix_type := mt, stored_dtype := dt\<rparr>)"
proof -
  from assms have di: "distinct (map (\<lambda>a. r_id (reaction_at H a)) rl)"
    by (auto simp: add_reactions_def split: if_splits)
  from assms di obtain H2 where
    reg: "register_reactions H rl = Inr H2"
    and res: "(if upd
           then bind_err (update_S (as_massmodel H2)
                  (Some (map (reaction_record H2) (new_reactions H rl))) None None True)
                  (\<lambda>(s_matrix, model).
                Inr (H2\<lparr>stored_S := S_cache model,
                        stored_matrix_type := matrix_type_attr model,
                        stored_dtype := dtype_attr model\<rparr>))
           else Inr H2) = Inr H'"
    by (auto simp: add_reactions_def elim!: bind_err_InrE)
  from register_reactions_result[OF reg] obtain H1 s mt dt where
    loop: "add_reaction_loop H (new_reactions H rl) = Inr H1"
    and H2: "H2 = H1\<lparr>registered_reactions := registered_reactions H1 @ new_reactions H rl,
                    stored_S := s, stored_matrix_type := mt, stored_dtype := dt\<rparr>"
    by blast
  have "\<exists>s mt dt. H' = H1\<lparr>registered_reactions := registered_reactions H1 @ new_reactions H rl,
                   stored_S := s, stored_matrix_type := mt, stored_dtype := dt\<rparr>"
  proof (cases upd)
    case True
    from res True have "bind_err (update_S (as_massmodel H2)
                  (Some (map (reaction_record H2) (new_reactions H rl))) None None True)
                  (\<lambda>(s_matrix, model).
                Inr (H2\<lparr>stored_S := S_cache model,
                        stored_matrix_type := matrix_type_attr model,
                        stored_dtype := dtype_attr model\<rparr>)) = Inr H'"
      by (simp only: if_True)
    then obtain x where
      x: "(\<lambda>(s_matrix :: matrix option, model :: massmodel).
                Inr (H2\<lparr>stored_S := S_cache model,
                        stored_matrix_type := matrix_type_attr model,
                        stored_dtype := dtype_attr model\<rparr>)) x = (Inr H' :: py_error + object_model)"
      by (rule bind_err_InrE)
    obtain s_matrix model where "x = (s_matrix, model)" by (cases x)
    with x have
      "H' = H2\<lparr>stored_S := S_cache model, stored_matrix_type := matrix_type_attr model,
               stored_dtype := dtype_attr model\<rparr>"
      by simp
    then have eq:
      "H' = H1\<lparr>registered_reactions := registered_reactions H1 @ new_reactions H rl,
               stored_S := S_cache model, stored_matrix_type := matrix_type_attr model,
               stored_dtype := dtype_attr model\<rparr>"
      unfolding H2 by simp
    show ?thesis by (intro exI) (rule eq)
  next
    case False
    with res have "H' = H2" by simp
    then show ?thesis using H2 by blast
  qed
  with loop di show ?thesis by blast
qed

text \<open>
  Claim C10.  Let \<open>H'\<close> be the model that \<open>add_reactions\<close> returns, with or without the
  update of the matrix and whatever genes the reactions carry, or the model that is
  left when the reactions have been registered and \<^verbatim>\<open>update_S\<close> raises.  Then every
  reaction the call added is in the reaction registry; the identifiers of the keys of
  its coefficient dictionary are those of the keys it had before the call, each with a
  coefficient it had before the call, and each of them is an identifier of the
  metabolite registry; every key of the dictionary is an object of the metabolite
  registry, and that object has the reaction among its back-references.  No metabolite
  has left the registry and no identifier has changed; identifiers that were unique in
  the registry still are, so a metabolite is added only when its identifier was not
  registered; and every metabolite registered by the call that stores an initial
  condition has it in the model's initial conditions.
\<close>

theorem add_reactions_links_metabolites:
  assumes "add_reactions H rl upd = Inr H' \<or>
           (distinct (map (\<lambda>a. r_id (reaction_at H a)) rl) \<and>
            register_reactions H rl = Inr H')"
  shows "(\<forall>rxn \<in> set (new_reactions H rl).
            rxn \<in> set (registered_reactions H') \<and>
            key_ids H' rxn = key_ids H rxn \<and>
            entries_by_id H' rxn \<subseteq> entries_by_id H rxn \<and>
            key_ids H rxn \<subseteq> set (metabolite_ids H') \<and>
            (\<forall>kv \<in> set (r_metabolites (reaction_at H' rxn)).
               fst kv \<in> set (registered_metabolites H') \<and>
               rxn \<in> o_reaction (metabolite_at H' (fst kv)))) \<and>
         set (registered_metabolites H) \<subseteq> set (registered_metabolites H') \<and>
         (\<forall>m. o_id (metabolite_at H' m) = o_id (metabolite_at H m)) \<and>
         (distinct (metabolite_ids H) \<longrightarrow> distinct (metabolite_ids H')) \<and>
         (\<forall>m \<in> set (registered_metabolites H') - set (registered_metabolites H).
            \<forall>v. o_ic (metabolite_at H m) = Some v \<longrightarrow> ic_map H' m = Some v)"
proof (cases "add_reactions H rl upd = Inr H' \<and> rl = []")
  case True
  then have e: "rl = []" and run: "add_reactions H [] upd = Inr H'" by auto
  from run have "H' = H" by (simp add: add_reactions_def)
  with e show ?thesis by (simp add: new_reactions_def)
next
  case False
  have "distinct (map (\<lambda>a. r_id (reaction_at H a)) rl) \<and>
         (\<exists>H1 s mt dt. add_reaction_loop H (new_reactions H rl) = Inr H1 \<and>
           H' = H1\<lparr>registered_reactions := registered_reactions H1 @ new_reactions H rl,
                   stored_S := s, stored_matrix_type := mt, stored_dtype := dt\<rparr>)"
    using assms
  proof
    assume a: "add_reactions H rl upd = Inr H'"
    with False have "rl \<noteq> []" by simp
    from add_reactions_result[OF a this] show ?thesis .
  next
    assume "distinct (map (\<lambda>a. r_id (reaction_at H a)) rl) \<and>
            register_reactions H rl = Inr H'"
    then show ?thesis using register_reactions_result[of H rl H'] by simp
  qed
  then obtain H1 s mt dt where
    di: "distinct (map (\<lambda>a. r_id (reaction_at H a)) rl)"
    and loop: "add_reaction_loop H (new_reactions H rl) = Inr H1"
    and H': "H' = H1\<lparr>registered_reactions := registered_reactions H1 @ new_reactions H rl,
                    stored_S := s, stored_matrix_type := mt, stored_dtype := dt\<rparr>"
    by blast
  from di have "distinct rl" by (simp add: distinct_map)
  then have d: "distinct (new_reactions H rl)" by (simp add: new_reactions_def)
  note a = add_reaction_loop_links[OF loop d]
  from a have ext: "model_extends H H1" by simp
  have same: "metabolite_at H' = metabolite_at H1"
    "registered_metabolites H' = registered_metabolites H1"
    "reaction_at H' = reaction_at H1" "ic_map H' = ic_map H1"
    unfolding H' by simp_all
  have mids: "metabolite_ids H' = metabolite_ids H1"
    using same by (simp add: metabolite_ids_def)
  have kids: "\<forall>r. key_ids H' r = key_ids H r"
    using a same by (simp add: key_ids_def)
  have ents: "\<forall>r. entries_by_id H' r \<subseteq> entries_by_id H r"
    using a same by (simp add: entries_by_id_def)
  have sub: "set (registered_metabolites H) \<subseteq> set (registered_metabolites H')"
    and ids: "\<forall>m. o_id (metabolite_at H' m) = o_id (metabolite_at H m)"
    and dist: "distinct (metabolite_ids H) \<longrightarrow> distinct (metabolite_ids H')"
    and ics: "\<forall>m \<in> set (registered_metabolites H') - set (registered_metabolites H).
            \<forall>v. o_ic (metabolite_at H m) = Some v \<longrightarrow> ic_map H' m = Some v"
    using ext unfolding model_extends_def same mids by simp_all
  have per: "rxn \<in> set (registered_reactions H') \<and>
            key_ids H' rxn = key_ids H rxn \<and>
            entries_by_id H' rxn \<subseteq> entries_by_id H rxn \<and>
            key_ids H rxn \<subseteq> set (metabolite_ids H') \<and>
            (\<forall>kv \<in> set (r_metabolites (reaction_at H' rxn)).
               fst kv \<in> set (registered_metabolites H') \<and>
               rxn \<in> o_reaction (metabolite_at H' (fst kv)))"
    if rxn: "rxn \<in> set (new_reactions H rl)" for rxn
  proof -
    have r1: "rxn \<in> set (registered_reactions H')" using rxn unfolding H' by simp
    have lk: "linked_reaction H' rxn"
      using a rxn same by (simp add: linked_reaction_def linked_metabolite_def)
    have r4: "\<forall>kv \<in> set (r_metabolites (reaction_at H' rxn)).
               fst kv \<in> set (registered_metabolites H') \<and>
               rxn \<in> o_reaction (metabolite_at H' (fst kv))"
      using lk by (simp add: linked_reaction_def linked_metabolite_def)
    have "key_ids H' rxn \<subseteq> set (metabolite_ids H')"
      using r4 by (auto simp: key_ids_def metabolite_ids_def)
    then have r3: "key_ids H rxn \<subseteq> set (metabolite_ids H')" using kids by simp
    show ?thesis using r1 kids ents r3 r4 by simp
  qed
  show ?thesis using per sub ids dist ics by blast
qed

text \<open>
  Without the update of the matrix the call returns whenever the listed reactions have
  distinct identifiers and their dictionaries hold each key once.
\<close>

lemma link_metabolite_total:
  assumes "k \<in> fst ` set (r_metabolites (reaction_at H rxn))"
  shows "\<exists>H'. link_metabolite H rxn k = Inr H' \<and>
           fst ` set (r_metabolites (reaction_at H rxn)) - {k}
             \<subseteq> fst ` set (r_metabolites (reaction_at H' rxn))"
proof (cases "o_id (metabolite_at H k) \<in> set (metabolite_ids H)")
  case False
  from add_metabolites_single[OF False] obtain H1 where
    H1: "add_metabolites H [k] True = Inr H1" "reaction_at H1 = reaction_at H" by blast
  then show ?thesis
    using False by (auto simp: link_metabolite_def bind_err_def add_back_reference_def)
next
  case True
  from assms obtain c where c: "map_of (r_metabolites (reaction_at H rxn)) k = Some c"
    by (metis (no_types, opaque_lifting) domD dom_map_of_conv_image_fst)
  from True obtain mm where
    mm: "get_by_id (\<lambda>a. o_id (metabolite_at H a)) (registered_metabolites H)
           (o_id (metabolite_at H k)) = Inr mm"
    using get_by_id_total[of "o_id (metabolite_at H k)" "\<lambda>a. o_id (metabolite_at H a)"
        "registered_metabolites H"]
    by (auto simp: metabolite_ids_def)
  show ?thesis
    using True c mm
    by (auto simp: link_metabolite_def bind_err_def dict_pop_def add_back_reference_def
          Let_def dict_set_keys)
qed

lemma link_metabolites_total:
  assumes "distinct ks" and "set ks \<subseteq> fst ` set (r_metabolites (reaction_at H rxn))"
  shows "\<exists>H'. link_metabolites H rxn ks = Inr H'"
  using assms
proof (induction ks arbitrary: H)
  case Nil
  then show ?case by simp
next
  case (Cons k ks)
  from Cons.prems(2) have "k \<in> fst ` set (r_metabolites (reaction_at H rxn))" by simp
  from link_metabolite_total[OF this] obtain H1 where
    H1: "link_metabolite H rxn k = Inr H1"
      "fst ` set (r_metabolites (reaction_at H rxn)) - {k}
         \<subseteq> fst ` set (r_metabolites (reaction_at H1 rxn))" by blast
  from Cons.prems have "distinct ks" "set ks \<subseteq> fst ` set (r_metabolites (reaction_at H1 rxn))"
    using H1(2) by auto
  from Cons.IH[OF this] H1(1) show ?case by (simp add: bind_err_def)
qed

lemma add_reaction_loop_total:
  assumes "distinct rs"
    and "\<forall>r \<in> set rs. distinct (map fst (r_metabolites (reaction_at H r)))"
  shows "\<exists>H'. add_reaction_loop H rs = Inr H'"
  using assms
proof (induction rs arbitrary: H)
  case Nil
  then show ?case by simp
next
  case (Cons rxn rs)
  define H1 where
    "H1 = H\<lparr>reaction_at := (reaction_at H)(rxn := (reaction_at H rxn)\<lparr>r_model := True\<rparr>)\<rparr>"
  have k: "distinct (map fst (r_metabolites (reaction_at H1 rxn)))"
    using Cons.prems(2) by (simp add: H1_def)
  from link_metabolites_total[OF k, of H1 rxn] obtain H2 where
    link: "link_metabolites H1 rxn (map fst (r_metabolites (reaction_at H1 rxn))) = Inr H2"
    by auto
  have "\<forall>m \<in> fst ` set (r_metabolites (reaction_at H1 rxn)).
           m \<in> set (map fst (r_metabolites (reaction_at H1 rxn))) \<or> linked_metabolite H1 rxn m"
    by simp
  from link_metabolites_loop[OF link this]
  have fr: "\<forall>r. r \<noteq> rxn \<longrightarrow> reaction_at H2 r = reaction_at H1 r" by simp
  from link_genes_frame[of H2 rxn "r_genes (reaction_at H2 rxn)"] obtain H3 where
    genes: "link_genes H2 rxn (r_genes (reaction_at H2 rxn)) = Inr H3"
    and fr3: "\<forall>r. r \<noteq> rxn \<longrightarrow> reaction_at H3 r = reaction_at H2 r"
    by blast
  from Cons.prems have d: "distinct rs" and nin: "rxn \<notin> set rs" by simp_all
  have "\<forall>r \<in> set rs. distinct (map fst (r_metabolites (reaction_at H3 r)))"
    using Cons.prems(2) fr fr3 nin by (auto simp: H1_def)
  from Cons.IH[OF d this] obtain H' where "add_reaction_loop H3 rs = Inr H'" by blast
  with link genes show ?case by (simp add: bind_err_def Let_def H1_def)
qed

lemma add_reactions_total:
  assumes "distinct (map (\<lambda>a. r_id (reaction_at H a)) rl)"
    and "\<forall>r \<in> set rl. distinct (map fst (r_metabolites (reaction_at H r)))"
  shows "\<exists>H'. add_reactions H rl False = Inr H'"
proof -
  from assms(1) have "distinct rl" by (simp add: distinct_map)
  then have d: "distinct (new_reactions H rl)" by (simp add: new_reactions_def)
  have "\<forall>r \<in> set (new_reactions H rl). distinct (map fst (r_metabolites (reaction_at H r)))"
    using assms(2) by (simp add: new_reactions_def)
  from add_reaction_loop_total[OF d this] assms(1) show ?thesis
    by (auto simp: add_reactions_def register_reactions_def bind_err_def)
qed

subsection \<open>A run with the update of the matrix\<close>

lemma add_reactions_with_update:
  assumes "distinct (map (\<lambda>a. r_id (reaction_at H a)) rl)" and "rl \<noteq> []"
    and "add_reaction_loop H (new_reactions H rl) = Inr H1"
    and "update_S
           (as_massmodel
              (H1\<lparr>registered_reactions := registered_reactions H1 @ new_reactions H rl\<rparr>))
           (Some (map (reaction_record
              (H1\<lparr>registered_reactions := registered_reactions H1 @ new_reactions H rl\<rparr>))
              (new_reactions H rl)))
           None None True = Inr (s_matrix, model)"
  shows "add_reactions H rl True =
           Inr (H1\<lparr>registered_reactions := registered_reactions H1 @ new_reactions H rl,
                   stored_S := S_cache model, stored_matrix_type := matrix_type_attr model,
                   stored_dtype := dtype_attr model\<rparr>)"
  using assms by (simp add: add_reactions_def register_reactions_def bind_err_def)

lemma example_add_reaction_loop:
  "\<exists>H'. add_reaction_loop example_objects [0, 1] = Inr H' \<and>
     registered_metabolites H' = [0, 1] \<and> registered_reactions H' = [] \<and>
     registered_genes H' = [0] \<and>
     reaction_at H' 0 = \<lparr>r_id = ''v1'', r_metabolites = [(0, - 1), (1, 1)], r_genes = [0],
                         r_model = True\<rparr> \<and>
     reaction_at H' 1 = \<lparr>r_id = ''v2'', r_metabolites = [(1, - 2), (0, 1)], r_genes = [0],
                         r_model = True\<rparr> \<and>
     o_id (metabolite_at H' 0) = ''A'' \<and> o_id (metabolite_at H' 1) = ''B'' \<and>
     o_ic (metabolite_at H' 0) = Some 1 \<and> o_ic (metabolite_at H' 1) = Some 2 \<and>
     stored_S H' = None \<and> stored_matrix_type H' = None \<and> stored_dtype H' = None \<and>
     ic_map H' 0 = Some 1 \<and> ic_map H' 1 = Some 2 \<and> ic_map H' 2 = None"
  by (simp add: example_objects_def reaction_ids_def
      metabolite_ids_def gene_ids_def link_metabolite_def link_gene_def add_metabolites_def
      set_initial_conditions_def update_initial_conditions_def add_back_reference_def
      associate_gene_def dissociate_gene_def dict_pop_def bind_err_def Let_def)

lemma example_update_S:
  "update_S
     \<lparr>reactions =
        [\<lparr>rid = ''v1'', rmetabolites = [(''A'', - 1), (''B'', 1)], reversible = True,
          exchange = False, external_metabolite = [], sym_kf = [], sym_kr = [], sym_Keq = [],
          Keq = None, ssflux = None, in_model = True\<rparr>,
         \<lparr>rid = ''v2'', rmetabolites = [(''B'', - 2), (''A'', 1)], reversible = True,
          exchange = False, external_metabolite = [], sym_kf = [], sym_kr = [], sym_Keq = [],
          Keq = None, ssflux = None, in_model = True\<rparr>],
      metabolites =
        [\<lparr>mid = ''A'', initial_condition = Some 1, m_reaction = []\<rparr>,
         \<lparr>mid = ''B'', initial_condition = Some 2, m_reaction = []\<rparr>],
      initial_conditions = Map.empty, rtype = 1, custom_rates = [], custom_parameters = [],
      fixed_concentrations = Map.empty, S_cache = None, matrix_type_attr = None,
      dtype_attr = None\<rparr>
     (Some rs) None None True =
   Inr (Some \<lparr>dtype_of = Float64, storage_of = NdArray [[- 1, 1], [1, - 2]]\<rparr>,
     \<lparr>reactions =
        [\<lparr>rid = ''v1'', rmetabolites = [(''A'', - 1), (''B'', 1)], reversible = True,
          exchange = False, external_metabolite = [], sym_kf = [], sym_kr = [], sym_Keq = [],
          Keq = None, ssflux = None, in_model = True\<rparr>,
         \<lparr>rid = ''v2'', rmetabolites = [(''B'', - 2), (''A'', 1)], reversible = True,
          exchange = False, external_metabolite = [], sym_kf = [], sym_kr = [], sym_Keq = [],
          Keq = None, ssflux = None, in_model = True\<rparr>],
      metabolites =
        [\<lparr>mid = ''A'', initial_condition = Some 1, m_reaction = []\<rparr>,
         \<lparr>mid = ''B'', initial_condition = Some 2, m_reaction = []\<rparr>],
      initial_conditions = Map.empty, rtype = 1, custom_rates = [], custom_parameters = [],
      fixed_concentrations = Map.empty,
      S_cache = Some \<lparr>dtype_of = Float64, storage_of = NdArray [[- 1, 1], [1, - 2]]\<rparr>,
      matrix_type_attr = None, dtype_attr = None\<rparr>)"
  by (simp add: update_S_def create_stoichiometric_matrix_def setup_matrix_constructor_def
      matrix_constructor_def np_zeros_def bind_err_def m_ind_def r_ind_def mat_set_def
      dtype_convert_def float64_of_int_exact update_model_s_def)

lemma example_add_reactions:
  "\<exists>H'. add_reactions example_objects [0, 1] True = Inr H' \<and>
     registered_metabolites H' = [0, 1] \<and> registered_reactions H' = [0, 1] \<and>
     r_metabolites (reaction_at H' 1) = [(1, - 2), (0, 1)] \<and>
     o_id (metabolite_at H' 0) = ''A'' \<and> o_id (metabolite_at H' 1) = ''B'' \<and>
     stored_S H' = Some \<lparr>dtype_of = Float64, storage_of = NdArray [[- 1, 1], [1, - 2]]\<rparr> \<and>
     ic_map H' 0 = Some 1 \<and> ic_map H' 1 = Some 2 \<and> ic_map H' 2 = None"
proof -
  from example_add_reaction_loop obtain H1 where
    H1: "add_reaction_loop example_objects [0, 1] = Inr H1"
      "registered_metabolites H1 = [0, 1]" "registered_reactions H1 = []"
      "reaction_at H1 0 = \<lparr>r_id = ''v1'', r_metabolites = [(0, - 1), (1, 1)], r_genes = [0],
                         r_model = True\<rparr>"
      "reaction_at H1 1 = \<lparr>r_id = ''v2'', r_metabolites = [(1, - 2), (0, 1)], r_genes = [0],
                         r_model = True\<rparr>"
      "o_id (metabolite_at H1 0) = ''A''" "o_id (metabolite_at H1 1) = ''B''"
      "o_ic (metabolite_at H1 0) = Some 1" "o_ic (metabolite_at H1 1) = Some 2"
      "stored_S H1 = None" "stored_matrix_type H1 = None" "stored_dtype H1 = None"
      "ic_map H1 0 = Some 1" "ic_map H1 1 = Some 2" "ic_map H1 2 = None"
    by blast
  have nr: "new_reactions example_objects [0, 1] = [0, 1]"
    by (simp add: new_reactions_def reaction_ids_def example_objects_def)
  have di: "distinct (map (\<lambda>a. r_id (reaction_at example_objects a)) [0, 1])"
    by (simp add: example_objects_def)
  define H2 where "H2 = H1\<lparr>registered_reactions := registered_reactions H1 @ [0, 1]\<rparr>"
  have mm: "as_massmodel H2 =
     \<lparr>reactions =
        [\<lparr>rid = ''v1'', rmetabolites = [(''A'', - 1), (''B'', 1)], reversible = True,
          exchange = False, external_metabolite = [], sym_kf = [], sym_kr = [], sym_Keq = [],
          Keq = None, ssflux = None, in_model = True\<rparr>,
         \<lparr>rid = ''v2'', rmetabolites = [(''B'', - 2), (''A'', 1)], reversible = True,
          exchange = False, external_metabolite = [], sym_kf = [], sym_kr = [], sym_Keq = [],
          Keq = None, ssflux = None, in_model = True\<rparr>],
      metabolites =
        [\<lparr>mid = ''A'', initial_condition = Some 1, m_reaction = []\<rparr>,
         \<lparr>mid = ''B'', initial_condition = Some 2, m_reaction = []\<rparr>],
      initial_conditions = Map.empty, rtype = 1, custom_rates = [], custom_parameters = [],
      fixed_concentrations = Map.empty, S_cache = None, matrix_type_attr = None,
      dtype_attr = None\<rparr>"
    using H1 by (simp add: as_massmodel_def reaction_record_def metabolite_record_def H2_def)
  have l: "add_reaction_loop example_objects (new_reactions example_objects [0, 1]) = Inr H1"
    unfolding nr by (rule H1(1))
  have u: "update_S
           (as_massmodel
              (H1\<lparr>registered_reactions :=
                    registered_reactions H1 @ new_reactions example_objects [0, 1]\<rparr>))
           (Some (map (reaction_record
              (H1\<lparr>registered_reactions :=
                    registered_reactions H1 @ new_reactions example_objects [0, 1]\<rparr>))
              (new_reactions example_objects [0, 1])))
           None None True =
     Inr (Some \<lparr>dtype_of = Float64, storage_of = NdArray [[- 1, 1], [1, - 2]]\<rparr>,
     \<lparr>reactions =
        [\<lparr>rid = ''v1'', rmetabolites = [(''A'', - 1), (''B'', 1)], reversible = True,
          exchange = False, external_metabolite = [], sym_kf = [], sym_kr = [], sym_Keq = [],
          Keq = None, ssflux = None, in_model = True\<rparr>,
         \<lparr>rid = ''v2'', rmetabolites = [(''B'', - 2), (''A'', 1)], reversible = True,
          exchange = False, external_metabolite = [], sym_kf = [], sym_kr = [], sym_Keq = [],
          Keq = None, ssflux = None, in_model = True\<rparr>],
      metabolites =
        [\<lparr>mid = ''A'', initial_condition = Some 1, m_reaction = []\<rparr>,
         \<lparr>mid = ''B'', initial_condition = Some 2, m_reaction = []\<rparr>],
      initial_conditions = Map.empty, rtype = 1, custom_rates = [], custom_parameters = [],
      fixed_concentrations = Map.empty,
      S_cache = Some \<lparr>dtype_of = Float64, storage_of = NdArray [[- 1, 1], [1, - 2]]\<rparr>,
      matrix_type_attr = None, dtype_attr = None\<rparr>)"
    unfolding nr H2_def[symmetric] mm by (rule example_update_S)
  have ne: "[0, 1::nat] \<noteq> []" by simp
  note run = add_reactions_with_update[OF di ne l u]
  show ?thesis
    unfolding run nr using H1 by simp
qed

theorem add_reactions_links_metabolites_witness:
  "\<exists>H'. add_reactions example_objects [0, 1] True = Inr H' \<and>
     new_reactions example_objects [0, 1] = [0, 1] \<and>
     key_ids example_objects 1 = {''A'', ''B''} \<and>
     key_ids H' 1 = {''A'', ''B''} \<and>
     r_metabolites (reaction_at H' 1) = [(1, - 2), (0, 1)] \<and>
     0 \<in> set (registered_metabolites H') \<and> 1 \<in> o_reaction (metabolite_at H' 0) \<and>
     distinct (metabolite_ids example_objects) \<and> distinct (metabolite_ids H') \<and>
     ic_map H' 0 = Some 1"
proof -
  from example_add_reactions obtain H' where
    run: "add_reactions example_objects [0, 1] True = Inr H'"
    and keys: "r_metabolites (reaction_at H' 1) = [(1, - 2), (0, 1)]"
    and ic: "ic_map H' 0 = Some 1"
    by blast
  have nr: "new_reactions example_objects [0, 1] = [0, 1]"
    by (simp add: new_reactions_def reaction_ids_def example_objects_def)
  have k0: "key_ids example_objects 1 = {''A'', ''B''}"
    by (auto simp: key_ids_def example_objects_def)
  have d0: "distinct (metabolite_ids example_objects)"
    by (simp add: metabolite_ids_def example_objects_def)
  note t = add_reactions_links_metabolites[OF disjI1[OF run]]
  from t have "\<forall>rxn \<in> set (new_reactions example_objects [0, 1]).
          key_ids H' rxn = key_ids example_objects rxn \<and>
          (\<forall>kv \<in> set (r_metabolites (reaction_at H' rxn)).
             fst kv \<in> set (registered_metabolites H') \<and>
             rxn \<in> o_reaction (metabolite_at H' (fst kv)))"
    by blast
  then have a: "key_ids H' 1 = key_ids example_objects 1"
    and b: "0 \<in> set (registered_metabolites H') \<and> 1 \<in> o_reaction (metabolite_at H' 0)"
    unfolding nr using keys by simp_all
  from t d0 have c: "distinct (metabolite_ids H')" by blast
  from run nr keys ic a b c d0 k0 show ?thesis by auto
qed

end
